theory Spec2Isabelle
  imports Main
begin

section \<open>Signal controller: data model\<close>

text \<open>
  The development embeds \<^verbatim>\<open>src/signals/signal_controller.py\<close>: the class
  \<^verbatim>\<open>SignalController\<close> with its dictionary \<^verbatim>\<open>signal_states\<close> and the
  operations that write it.

  Modelling decisions:
  \<^item> A \<^verbatim>\<open>datetime\<close> is the number of whole seconds since
    \<^verbatim>\<open>0001-01-01T00:00:00\<close>, the least value of the library's type; its greatest
    value, the last second of the year 9999, is \<open>datetime_max\<close>. Fractions of a second
    are not modelled. \<^verbatim>\<open>timedelta(seconds=n)\<close> and the addition of a
    \<^verbatim>\<open>timedelta\<close> to a \<^verbatim>\<open>datetime\<close> raise \<^verbatim>\<open>OverflowError\<close> outside the
    library's ranges, and the \<^verbatim>\<open>except Exception\<close> handler of the calling operation
    turns that into a failure result.
  \<^item> Every operation takes the reading \<open>now\<close> of \<^verbatim>\<open>datetime.utcnow()\<close> as an
    argument; the readings taken inside one call are identified.
  \<^item> The controller object is a record that every operation takes and returns.
  \<^item> \<^verbatim>\<open>_update_redis_state\<close> and \<^verbatim>\<open>_log_signal_event\<close> catch every exception
    they raise, return nothing and write only to Redis, so they leave no trace in the
    model. The one Redis call whose outcome reaches a result,
    \<^verbatim>\<open>redis_client.setex\<close> in \<^verbatim>\<open>_schedule_signal_override\<close>, is a parameter.
  \<^item> The monitor thread is an interleaving: its step runs between two operations.
  \<^item> A leading underscore of a Python name is dropped.
\<close>

type_synonym datetime = int

record SignalTiming =
  red_duration :: int
  yellow_duration :: int
  green_duration :: int
  cycle_time :: int

text \<open>
  The field \<^verbatim>\<open>normal_timing: Dict = None\<close> holds one of three things in the source:
  \<^verbatim>\<open>None\<close>, the dictionary \<^verbatim>\<open>asdict(SignalTiming)\<close>, or the snapshot dictionary
  with the keys \<^verbatim>\<open>state\<close>, \<^verbatim>\<open>remaining_time\<close> and \<^verbatim>\<open>state_start_time\<close> written by
  \<^verbatim>\<open>emergency_override\<close>. Both dictionaries are non-empty, hence truthy.
\<close>

datatype timing_dict =
    NoneT
  | Timing SignalTiming
  | Snapshot string int datetime

record SignalState =
  signal_id :: string
  current_state :: string
  state_start_time :: datetime
  remaining_time :: int
  is_emergency_override :: bool
  override_reason :: string
  normal_timing :: timing_dict

record SignalController =
  default_timing :: SignalTiming
  signal_states :: "string \<rightharpoonup> SignalState"
  emergency_override_duration :: int
  default_green_duration :: int
  default_red_duration :: int

text \<open>Errors reported in a result dictionary, or raised and caught by \<^verbatim>\<open>except Exception\<close>.\<close>

datatype err =
    Signal_not_found
  | Signal_is_not_in_emergency_override
  | Missing_required_field string
  | Invalid_value_for string
  | No_signals_provided
  | KeyError
  | TypeError
  | UnboundLocalError
  | OverflowError
  | RedisError

definition truthy :: "timing_dict \<Rightarrow> bool" where
  "truthy d = (case d of NoneT \<Rightarrow> False | _ \<Rightarrow> True)"

section \<open>Dates and durations\<close>

text \<open>
  \<^verbatim>\<open>datetime.max\<close> is \<^verbatim>\<open>9999-12-31T23:59:59.999999\<close>, day 3652059 of the calendar
  that starts with day 1 at \<^verbatim>\<open>datetime.min\<close>.
\<close>

definition datetime_max :: datetime where
  "datetime_max = 3652059 * 86400 - 1"

definition is_datetime :: "datetime \<Rightarrow> bool" where
  "is_datetime t = (0 \<le> t \<and> t \<le> datetime_max)"

text \<open>
  \<^verbatim>\<open>timedelta(seconds=n)\<close> for an \<^verbatim>\<open>int\<close>: the value is normalised to days and
  seconds of a day, and the constructor raises \<^verbatim>\<open>OverflowError\<close> when the number of
  days has a magnitude above 999999999.
\<close>

definition timedelta_seconds :: "int \<Rightarrow> err + int" where
  "timedelta_seconds n =
     (if - 999999999 \<le> n div 86400 \<and> n div 86400 \<le> 999999999 then Inr n
      else Inl OverflowError)"

text \<open>
  \<^verbatim>\<open>t + timedelta(seconds=n)\<close>: \<^verbatim>\<open>OverflowError\<close> when the sum is no date of the
  years 1 to 9999.
\<close>

definition plus_timedelta :: "datetime \<Rightarrow> int \<Rightarrow> err + datetime" where
  "plus_timedelta t n =
     (case timedelta_seconds n of
        Inl e \<Rightarrow> Inl e
      | Inr delta \<Rightarrow>
          if 0 \<le> t + delta \<and> t + delta \<le> datetime_max then Inr (t + delta)
          else Inl OverflowError)"

section \<open>Construction\<close>

definition SignalTiming_default :: SignalTiming where
  "SignalTiming_default =
     \<lparr>red_duration = 45, yellow_duration = 5, green_duration = 30, cycle_time = 80\<rparr>"

definition set_signal :: "SignalController \<Rightarrow> string \<Rightarrow> SignalState \<Rightarrow> SignalController" where
  "set_signal c sid s = c\<lparr>signal_states := (signal_states c)(sid \<mapsto> s)\<rparr>"

definition create_signal_if_not_exists ::
  "SignalController \<Rightarrow> string \<Rightarrow> datetime \<Rightarrow> SignalController" where
  "create_signal_if_not_exists c sid now =
     (case signal_states c sid of
        Some _ \<Rightarrow> c
      | None \<Rightarrow>
          set_signal c sid
            \<lparr>signal_id = sid,
             current_state = ''red'',
             state_start_time = now,
             remaining_time = default_red_duration c,
             is_emergency_override = False,
             override_reason = '''',
             normal_timing = Timing (default_timing c)\<rparr>)"

definition default_signals :: "string list" where
  "default_signals =
     [''clock_tower'', ''paltan_bazaar'', ''rispana_bridge'', ''gandhi_road'',
      ''rajpur_road'', ''saharanpur_road'', ''haridwar_road'', ''mussoorie_road'',
      ''chakrata_road'', ''ballupur'']"

definition initialize_default_signals :: "SignalController \<Rightarrow> datetime \<Rightarrow> SignalController" where
  "initialize_default_signals c now =
     fold (\<lambda>sid c'. create_signal_if_not_exists c' sid now) default_signals c"

text \<open>
  \<^verbatim>\<open>__init__\<close>: the three integers come from the environment variables
  \<^verbatim>\<open>EMERGENCY_OVERRIDE_DURATION\<close>, \<^verbatim>\<open>DEFAULT_GREEN_DURATION\<close> and
  \<^verbatim>\<open>DEFAULT_RED_DURATION\<close> (60, 30 and 45 when unset).
\<close>

definition new_controller :: "int \<Rightarrow> int \<Rightarrow> int \<Rightarrow> SignalController" where
  "new_controller eod dgd drd =
     \<lparr>default_timing = SignalTiming_default,
      signal_states = Map.empty,
      emergency_override_duration = eod,
      default_green_duration = dgd,
      default_red_duration = drd\<rparr>"

definition init :: "int \<Rightarrow> int \<Rightarrow> int \<Rightarrow> datetime \<Rightarrow> SignalController" where
  "init eod dgd drd now = initialize_default_signals (new_controller eod dgd drd) now"

section \<open>Emergency override and restoration\<close>

record override_result =
  or_signal_id :: string
  or_new_state :: string
  or_duration :: int
  or_reason :: string
  override_start_time :: datetime
  or_estimated_end_time :: datetime

text \<open>
  \<^verbatim>\<open>emergency_override\<close> writes the new record first and computes
  \<^verbatim>\<open>estimated_end_time\<close> when it builds the result: an \<^verbatim>\<open>OverflowError\<close> raised
  there reaches the handler after the record has been replaced.
\<close>

definition emergency_override ::
  "SignalController \<Rightarrow> string \<Rightarrow> int option \<Rightarrow> string \<Rightarrow> datetime
     \<Rightarrow> (err + override_result) \<times> SignalController" where
  "emergency_override c sid duration reason now =
     (let duration = (case duration of None \<Rightarrow> emergency_override_duration c | Some d \<Rightarrow> d);
          c1 = create_signal_if_not_exists c sid now
      in case signal_states c1 sid of
           None \<Rightarrow> (Inl KeyError, c1)
         | Some cur \<Rightarrow>
             (let saved =
                    (if \<not> is_emergency_override cur
                     then Snapshot (current_state cur) (remaining_time cur) (state_start_time cur)
                     else normal_timing cur);
                  c2 = set_signal c1 sid
                         \<lparr>signal_id = sid,
                          current_state = ''green'',
                          state_start_time = now,
                          remaining_time = duration,
                          is_emergency_override = True,
                          override_reason = reason,
                          normal_timing = saved\<rparr>
              in case plus_timedelta now duration of
                   Inl e \<Rightarrow> (Inl e, c2)
                 | Inr end_time \<Rightarrow>
                     (Inr \<lparr>or_signal_id = sid,
                           or_new_state = ''green'',
                           or_duration = duration,
                           or_reason = reason,
                           override_start_time = now,
                           or_estimated_end_time = end_time\<rparr>, c2)))"

record restore_result =
  rr_signal_id :: string
  rr_new_state :: string
  restoration_time :: datetime

text \<open>
  In \<^verbatim>\<open>restore_normal_operation\<close> the local \<^verbatim>\<open>override_duration\<close> is assigned only
  in the branch where \<^verbatim>\<open>normal_timing\<close> is truthy. In the other branch the state is
  replaced by a red one first, and the later read of \<^verbatim>\<open>override_duration\<close> raises
  \<^verbatim>\<open>UnboundLocalError\<close>, which the handler turns into a failure result.
\<close>

definition restore_normal_operation ::
  "SignalController \<Rightarrow> string \<Rightarrow> datetime \<Rightarrow> (err + restore_result) \<times> SignalController" where
  "restore_normal_operation c sid now =
     (case signal_states c sid of
        None \<Rightarrow> (Inl Signal_not_found, c)
      | Some cur \<Rightarrow>
          if \<not> is_emergency_override cur then (Inl Signal_is_not_in_emergency_override, c)
          else if truthy (normal_timing cur) then
            (let new = \<lparr>signal_id = sid,
                        current_state = ''yellow'',
                        state_start_time = now,
                        remaining_time = yellow_duration (default_timing c),
                        is_emergency_override = False,
                        override_reason = '''',
                        normal_timing = NoneT\<rparr>
             in (Inr \<lparr>rr_signal_id = sid,
                      rr_new_state = current_state new,
                      restoration_time = now\<rparr>, set_signal c sid new))
          else
            (Inl UnboundLocalError,
             set_signal c sid
               \<lparr>signal_id = sid,
                current_state = ''red'',
                state_start_time = now,
                remaining_time = default_red_duration c,
                is_emergency_override = False,
                override_reason = '''',
                normal_timing = NoneT\<rparr>))"

section \<open>Timing update\<close>

text \<open>
  A value of the dictionary \<^verbatim>\<open>timing_config\<close>: an \<^verbatim>\<open>int\<close> (a \<^verbatim>\<open>bool\<close> is one,
  with the values 0 and 1), or anything else (a string, a float, \<^verbatim>\<open>None\<close>), for which
  \<^verbatim>\<open>isinstance(v, int)\<close> is false.
\<close>

datatype py_value = PyInt int | PyOther

definition required_fields :: "string list" where
  "required_fields = [''red_duration'', ''yellow_duration'', ''green_duration'']"

text \<open>The validation loop: the first offending field, in the order of the list, decides.\<close>

fun validate_fields :: "(string \<rightharpoonup> py_value) \<Rightarrow> string list \<Rightarrow> err option" where
  "validate_fields timing_config [] = None"
| "validate_fields timing_config (field # rest) =
     (case timing_config field of
        None \<Rightarrow> Some (Missing_required_field field)
      | Some PyOther \<Rightarrow> Some (Invalid_value_for field)
      | Some (PyInt n) \<Rightarrow>
          if n \<le> 0 then Some (Invalid_value_for field)
          else validate_fields timing_config rest)"

record timing_result =
  tr_signal_id :: string
  new_timing :: SignalTiming
  update_time :: datetime

definition update_timing ::
  "SignalController \<Rightarrow> string \<Rightarrow> (string \<rightharpoonup> py_value) \<Rightarrow> datetime
     \<Rightarrow> (err + timing_result) \<times> SignalController" where
  "update_timing c sid timing_config now =
     (let c1 = create_signal_if_not_exists c sid now
      in case validate_fields timing_config required_fields of
           Some e \<Rightarrow> (Inl e, c1)
         | None \<Rightarrow>
             (case (timing_config ''red_duration'', timing_config ''yellow_duration'',
                    timing_config ''green_duration'') of
                (Some (PyInt r), Some (PyInt y), Some (PyInt g)) \<Rightarrow>
                  (let new_timing = \<lparr>red_duration = r, yellow_duration = y,
                                     green_duration = g, cycle_time = r + y + g\<rparr>
                   in case signal_states c1 sid of
                        None \<Rightarrow> (Inl KeyError, c1)
                      | Some cur \<Rightarrow>
                          (Inr \<lparr>tr_signal_id = sid, new_timing = new_timing, update_time = now\<rparr>,
                           set_signal c1 sid (cur\<lparr>normal_timing := Timing new_timing\<rparr>)))
              | _ \<Rightarrow> (Inl KeyError, c1)))"

section \<open>Normal cycle and the monitor loop\<close>

text \<open>
  \<^verbatim>\<open>SignalTiming(**normal_timing) if normal_timing else self.default_timing\<close>: the
  snapshot dictionary has none of the constructor's keywords, so the call raises
  \<^verbatim>\<open>TypeError\<close>.
\<close>

definition timing_of :: "SignalController \<Rightarrow> SignalState \<Rightarrow> err + SignalTiming" where
  "timing_of c cur =
     (case normal_timing cur of
        NoneT \<Rightarrow> Inr (default_timing c)
      | Timing t \<Rightarrow> Inr t
      | Snapshot _ _ _ \<Rightarrow> Inl TypeError)"

definition transition_to_next_state ::
  "SignalController \<Rightarrow> string \<Rightarrow> datetime \<Rightarrow> SignalController" where
  "transition_to_next_state c sid now =
     (case signal_states c sid of
        None \<Rightarrow> c
      | Some cur \<Rightarrow>
          (case timing_of c cur of
             Inl _ \<Rightarrow> c
           | Inr timing \<Rightarrow>
               (let (next_state, next_duration) =
                      (if current_state cur = ''red'' then (''green'', green_duration timing)
                       else if current_state cur = ''green'' then (''yellow'', yellow_duration timing)
                       else (''red'', red_duration timing))
                in set_signal c sid
                     \<lparr>signal_id = sid,
                      current_state = next_state,
                      state_start_time = now,
                      remaining_time = next_duration,
                      is_emergency_override = False,
                      override_reason = '''',
                      normal_timing = normal_timing cur\<rparr>)))"

text \<open>
  The body of the \<^verbatim>\<open>for\<close> loop of \<^verbatim>\<open>_monitor_signals\<close> for one signal:
  \<open>current_time\<close> is the clock reading taken at the start of the iteration, \<open>now\<close>
  the reading taken when the new state is written.
\<close>

definition monitor_signal ::
  "SignalController \<Rightarrow> string \<Rightarrow> datetime \<Rightarrow> datetime \<Rightarrow> SignalController" where
  "monitor_signal c sid current_time now =
     (case signal_states c sid of
        None \<Rightarrow> c
      | Some state \<Rightarrow>
          (let elapsed = current_time - state_start_time state
           in if elapsed \<ge> remaining_time state then
                (if is_emergency_override state
                 then snd (restore_normal_operation c sid now)
                 else transition_to_next_state c sid now)
              else c))"

text \<open>One iteration of the \<^verbatim>\<open>while\<close> loop over the keys of the dictionary.\<close>

definition monitor_signals ::
  "SignalController \<Rightarrow> string list \<Rightarrow> datetime \<Rightarrow> datetime \<Rightarrow> SignalController" where
  "monitor_signals c keys current_time now =
     fold (\<lambda>sid c'. monitor_signal c' sid current_time now) keys c"

section \<open>Green corridor\<close>

record plan_entry =
  pe_signal_id :: string
  green_start_time :: datetime
  pe_green_duration :: int
  delay_from_start :: int

text \<open>
  The first loop of \<^verbatim>\<open>coordinate_green_corridor\<close>, on \<^verbatim>\<open>enumerate(route_signals)\<close>
  from index \<open>i\<close> on: every signal of the route is created when unknown, and its entry
  joins the plan when its green duration is positive. The loop stops at the first
  \<^verbatim>\<open>OverflowError\<close> of \<^verbatim>\<open>start_time + timedelta(seconds=green_start_delay)\<close>, with
  the signals created so far.
\<close>

fun coordination_plan ::
  "SignalController \<Rightarrow> string list \<Rightarrow> nat \<Rightarrow> int \<Rightarrow> int \<Rightarrow> datetime
     \<Rightarrow> (err + plan_entry list) \<times> SignalController" where
  "coordination_plan c [] i signal_interval duration start = (Inr [], c)"
| "coordination_plan c (sid # rest) i signal_interval duration start =
     (let c1 = create_signal_if_not_exists c sid start;
          green_start_delay = int i * signal_interval
      in case plus_timedelta start green_start_delay of
           Inl e \<Rightarrow> (Inl e, c1)
         | Inr green_start \<Rightarrow>
             (let green_dur = min 60 (duration - green_start_delay);
                  entry = (if green_dur > 0
                           then [\<lparr>pe_signal_id = sid, green_start_time = green_start,
                                   pe_green_duration = green_dur,
                                   delay_from_start = green_start_delay\<rparr>]
                           else [])
              in case coordination_plan c1 rest (Suc i) signal_interval duration start of
                   (Inl e, c2) \<Rightarrow> (Inl e, c2)
                 | (Inr plan, c2) \<Rightarrow> (Inr (entry @ plan), c2)))"

text \<open>
  \<^verbatim>\<open>_schedule_signal_override\<close> writes one Redis entry and touches no signal. Whether
  the body of its \<^verbatim>\<open>try\<close> completes, that is whether neither
  \<^verbatim>\<open>start_time.timestamp()\<close> nor \<^verbatim>\<open>redis_client.setex\<close> raises, is the parameter
  \<open>setex_ok\<close>, asked for the signal and the start time that make the key.
\<close>

record schedule_result =
  sr_signal_id :: string
  scheduled_time :: datetime
  sr_duration :: int

definition schedule_signal_override ::
  "(string \<Rightarrow> datetime \<Rightarrow> bool) \<Rightarrow> string \<Rightarrow> datetime \<Rightarrow> int \<Rightarrow> string
     \<Rightarrow> err + schedule_result" where
  "schedule_signal_override setex_ok sid start duration reason =
     (if setex_ok sid start
      then Inr \<lparr>sr_signal_id = sid, scheduled_time = start, sr_duration = duration\<rparr>
      else Inl RedisError)"

fun str_nat :: "nat \<Rightarrow> string" where
  "str_nat n =
     (if n < 10 then [char_of (48 + n)]
      else str_nat (n div 10) @ [char_of (48 + n mod 10)])"

declare str_nat.simps [simp del]

text \<open>
  One iteration of the second loop, up to the assignment of \<^verbatim>\<open>result\<close>: the entry
  with delay 0 is overridden at once, any other entry is scheduled. The value is what
  \<^verbatim>\<open>result.get('success')\<close> tests, with the error of a failure, and the controller
  after the call.
\<close>

definition corridor_call ::
  "SignalController \<Rightarrow> (string \<Rightarrow> datetime \<Rightarrow> bool) \<Rightarrow> nat \<Rightarrow> datetime \<Rightarrow> plan_entry
     \<Rightarrow> (err + unit) \<times> SignalController" where
  "corridor_call c setex_ok n now plan =
     (if delay_from_start plan = 0 then
        (case emergency_override c (pe_signal_id plan) (Some (pe_green_duration plan))
                (''Green corridor coordination - Signal 1 of '' @ str_nat n) now of
           (Inr _, c') \<Rightarrow> (Inr (), c')
         | (Inl e, c') \<Rightarrow> (Inl e, c'))
      else
        (case schedule_signal_override setex_ok (pe_signal_id plan) (green_start_time plan)
                (pe_green_duration plan) ''Green corridor coordination - Scheduled override'' of
           Inr _ \<Rightarrow> (Inr (), c)
         | Inl e \<Rightarrow> (Inl e, c)))"

text \<open>
  The second loop. Returns \<^verbatim>\<open>successful_coordinates\<close>, \<^verbatim>\<open>failed_coordinates\<close> and
  the controller.
\<close>

fun execute_plan ::
  "SignalController \<Rightarrow> (string \<Rightarrow> datetime \<Rightarrow> bool) \<Rightarrow> nat \<Rightarrow> datetime \<Rightarrow> plan_entry list
     \<Rightarrow> string list \<times> (string \<times> err) list \<times> SignalController" where
  "execute_plan c setex_ok n now [] = ([], [], c)"
| "execute_plan c setex_ok n now (plan # plans) =
     (let (result, c') = corridor_call c setex_ok n now plan;
          (ok, failed, c'') = execute_plan c' setex_ok n now plans
      in case result of
           Inr _ \<Rightarrow> (pe_signal_id plan # ok, failed, c'')
         | Inl e \<Rightarrow> (ok, (pe_signal_id plan, e) # failed, c''))"

record corridor_result =
  success :: bool
  route_signals :: "string list"
  plan_of :: "plan_entry list"
  successful_coordinates :: "string list"
  failed_coordinates :: "(string \<times> err) list"
  start_time :: datetime
  estimated_end_time :: datetime
  total_duration :: int

text \<open>
  The result dictionary is built after both loops; its \<^verbatim>\<open>estimated_end_time\<close> is
  \<^verbatim>\<open>start_time + timedelta(seconds=duration)\<close>, and an \<^verbatim>\<open>OverflowError\<close> raised
  there reaches the handler after the plan has been executed. The entry
  \<^verbatim>\<open>coordination_id\<close>, the \<^verbatim>\<open>timestamp()\<close> of the clock reading \<open>now\<close>, is left out
  of the record.
\<close>

definition coordinate_green_corridor ::
  "SignalController \<Rightarrow> (string \<Rightarrow> datetime \<Rightarrow> bool) \<Rightarrow> string list \<Rightarrow> int \<Rightarrow> datetime
     \<Rightarrow> (err + corridor_result) \<times> SignalController" where
  "coordinate_green_corridor c setex_ok route duration now =
     (if route = [] then (Inl No_signals_provided, c)
      else
        (let signal_interval = max 10 (duration div int (length route))
         in case coordination_plan c route 0 signal_interval duration now of
              (Inl e, c1) \<Rightarrow> (Inl e, c1)
            | (Inr plan, c1) \<Rightarrow>
                (let (ok, failed, c2) = execute_plan c1 setex_ok (length route) now plan
                 in case plus_timedelta now duration of
                      Inl e \<Rightarrow> (Inl e, c2)
                    | Inr end_time \<Rightarrow>
                        (Inr \<lparr>success = length ok > 0,
                              route_signals = route,
                              plan_of = plan,
                              successful_coordinates = ok,
                              failed_coordinates = failed,
                              start_time = now,
                              estimated_end_time = end_time,
                              total_duration = duration\<rparr>, c2))))"

section \<open>Status query\<close>

record signal_status =
  st_signal_id :: string
  st_current_state :: string
  st_remaining_time :: int
  st_is_emergency_override :: bool
  st_override_reason :: string
  st_state_start_time :: datetime
  last_updated :: datetime

definition get_signal_status ::
  "SignalController \<Rightarrow> string \<Rightarrow> datetime \<Rightarrow> err + signal_status" where
  "get_signal_status c sid now =
     (case signal_states c sid of
        None \<Rightarrow> Inl Signal_not_found
      | Some state \<Rightarrow>
          (let elapsed = now - state_start_time state;
               remaining = max 0 (remaining_time state - elapsed)
           in Inr \<lparr>st_signal_id = sid,
                   st_current_state = current_state state,
                   st_remaining_time = remaining,
                   st_is_emergency_override = is_emergency_override state,
                   st_override_reason = override_reason state,
                   st_state_start_time = state_start_time state,
                   last_updated = now\<rparr>))"

section \<open>Reachable controllers\<close>

text \<open>
  The controllers a running process can hold: the one \<^verbatim>\<open>__init__\<close> starts from, closed
  under the public operations and under the monitor loop's step, at any clock readings
  and with any behaviour of Redis. No other method of the class writes
  \<^verbatim>\<open>signal_states\<close>.
\<close>

inductive reachable :: "SignalController \<Rightarrow> bool" where
  reachable_new: "reachable (new_controller eod dgd drd)"
| reachable_create: "reachable c \<Longrightarrow> reachable (create_signal_if_not_exists c sid now)"
| reachable_override:
    "reachable c \<Longrightarrow> reachable (snd (emergency_override c sid duration reason now))"
| reachable_restore: "reachable c \<Longrightarrow> reachable (snd (restore_normal_operation c sid now))"
| reachable_update: "reachable c \<Longrightarrow> reachable (snd (update_timing c sid timing_config now))"
| reachable_coordinate:
    "reachable c \<Longrightarrow> reachable (snd (coordinate_green_corridor c setex_ok route duration now))"
| reachable_monitor: "reachable c \<Longrightarrow> reachable (monitor_signal c sid current_time now)"

definition positive_timing :: "SignalTiming \<Rightarrow> bool" where
  "positive_timing t = (0 < red_duration t \<and> 0 < yellow_duration t \<and> 0 < green_duration t)"

definition is_snapshot :: "timing_dict \<Rightarrow> bool" where
  "is_snapshot d = (case d of Snapshot _ _ _ \<Rightarrow> True | _ \<Rightarrow> False)"

definition is_phase :: "string \<Rightarrow> bool" where
  "is_phase p = (p = ''red'' \<or> p = ''yellow'' \<or> p = ''green'')"

text \<open>The invariant of one record stored under the key \<open>sid\<close>.\<close>

definition state_ok :: "string \<Rightarrow> SignalState \<Rightarrow> bool" where
  "state_ok sid s =
     (signal_id s = sid \<and> is_phase (current_state s)
      \<and> (if is_emergency_override s
          then current_state s = ''green'' \<and> truthy (normal_timing s)
          else \<not> is_snapshot (normal_timing s))
      \<and> (case normal_timing s of Timing t \<Rightarrow> positive_timing t | _ \<Rightarrow> True))"

definition controller_ok :: "SignalController \<Rightarrow> bool" where
  "controller_ok c =
     (default_timing c = SignalTiming_default
      \<and> (\<forall>sid s. signal_states c sid = Some s \<longrightarrow> state_ok sid s))"

section \<open>Auxiliary notions and example controllers\<close>

text \<open>
  A signal has positive phase durations when every duration a tick can install for it
  is positive: those of the default timing, the default red duration, and those of its
  own timing profile when it has one.
\<close>

definition positive_durations :: "SignalController \<Rightarrow> SignalState \<Rightarrow> bool" where
  "positive_durations c s =
     (positive_timing (default_timing c) \<and> 0 < default_red_duration c
      \<and> (case normal_timing s of Timing t \<Rightarrow> positive_timing t | _ \<Rightarrow> True))"


text \<open>
  The controller of a fresh process with the default environment, then an override of
  \<^verbatim>\<open>clock_tower\<close>, then a timing update of the overridden signal.
\<close>

definition example_timing_config :: "string \<rightharpoonup> py_value" where
  "example_timing_config =
     [''red_duration'' \<mapsto> PyInt 50, ''yellow_duration'' \<mapsto> PyInt 6,
      ''green_duration'' \<mapsto> PyInt 35]"

definition example_overridden :: SignalController where
  "example_overridden =
     snd (emergency_override (init 60 30 45 0) ''clock_tower'' (Some 60) ''ambulance'' 10)"

definition example_retimed :: SignalController where
  "example_retimed =
     snd (update_timing example_overridden ''clock_tower'' example_timing_config 20)"

text \<open>
  The entries that the first loop of the corridor appends for the signals of a route,
  counted from index \<open>i\<close>, when no addition overflows.
\<close>

definition plan_entries ::
  "string list \<Rightarrow> nat \<Rightarrow> int \<Rightarrow> int \<Rightarrow> datetime \<Rightarrow> plan_entry list" where
  "plan_entries route i signal_interval duration start =
     map (\<lambda>(j, sid).
            \<lparr>pe_signal_id = sid,
             green_start_time = start + int j * signal_interval,
             pe_green_duration = min 60 (duration - int j * signal_interval),
             delay_from_start = int j * signal_interval\<rparr>)
       (filter (\<lambda>(j, sid). 0 < min 60 (duration - int j * signal_interval))
          (enumerate i route))"

text \<open>Two behaviours of Redis: every scheduling succeeds, or all but those of one signal.\<close>

definition redis_up :: "string \<Rightarrow> datetime \<Rightarrow> bool" where
  "redis_up sid start = True"

definition redis_down_for :: "string \<Rightarrow> string \<Rightarrow> datetime \<Rightarrow> bool" where
  "redis_down_for bad sid start = (sid \<noteq> bad)"

text \<open>A clock reading in the year 2025, and a controller started then.\<close>

definition example_now :: datetime where
  "example_now = 63900000000"

definition example_controller :: SignalController where
  "example_controller = init 60 30 45 example_now"

section \<open>Basic facts\<close>

lemma signal_states_set_signal:
  "signal_states (set_signal c sid s) k = (if k = sid then Some s else signal_states c k)"
  by (simp add: set_signal_def)

lemma default_timing_set_signal: "default_timing (set_signal c sid s) = default_timing c"
  by (simp add: set_signal_def)

lemma create_signal_lookup_same:
  "signal_states (create_signal_if_not_exists c sid now) sid =
     (case signal_states c sid of
        Some s \<Rightarrow> Some s
      | None \<Rightarrow> Some \<lparr>signal_id = sid, current_state = ''red'', state_start_time = now,
                       remaining_time = default_red_duration c, is_emergency_override = False,
                       override_reason = '''', normal_timing = Timing (default_timing c)\<rparr>)"
  by (simp add: create_signal_if_not_exists_def signal_states_set_signal split: option.splits)

lemma create_signal_lookup_other:
  "k \<noteq> sid \<Longrightarrow> signal_states (create_signal_if_not_exists c sid now) k = signal_states c k"
  by (simp add: create_signal_if_not_exists_def signal_states_set_signal split: option.splits)

lemma create_signal_existing:
  "signal_states c sid = Some s \<Longrightarrow> create_signal_if_not_exists c sid now = c"
  by (simp add: create_signal_if_not_exists_def)

lemma init_clock_tower:
  "signal_states (init eod dgd drd now) ''clock_tower'' =
     Some \<lparr>signal_id = ''clock_tower'', current_state = ''red'', state_start_time = now,
            remaining_time = drd, is_emergency_override = False, override_reason = '''',
            normal_timing = Timing SignalTiming_default\<rparr>"
  by (simp add: init_def initialize_default_signals_def default_signals_def new_controller_def
      create_signal_if_not_exists_def set_signal_def)

lemma init_unknown:
  "sid \<notin> set default_signals \<Longrightarrow> signal_states (init eod dgd drd now) sid = None"
  by (simp add: init_def initialize_default_signals_def default_signals_def new_controller_def
      create_signal_if_not_exists_def set_signal_def)

lemma init_fields:
  "default_timing (init eod dgd drd now) = SignalTiming_default"
  "default_red_duration (init eod dgd drd now) = drd"
  "emergency_override_duration (init eod dgd drd now) = eod"
  by (simp_all add: init_def initialize_default_signals_def default_signals_def
      new_controller_def create_signal_if_not_exists_def set_signal_def)

subsection \<open>Dates\<close>

lemma timedelta_seconds_small:
  assumes "- datetime_max \<le> n" and "n \<le> datetime_max"
  shows "timedelta_seconds n = Inr n"
proof -
  have "n div 86400 \<le> datetime_max div 86400"
    using assms(2) by (intro zdiv_mono1) simp_all
  moreover have "(- datetime_max) div 86400 \<le> n div 86400"
    using assms(1) by (intro zdiv_mono1) simp_all
  ultimately show ?thesis
    by (simp add: timedelta_seconds_def datetime_max_def)
qed

lemma plus_timedelta_in_range:
  assumes "is_datetime t"
  shows "plus_timedelta t n =
           (if 0 \<le> t + n \<and> t + n \<le> datetime_max then Inr (t + n) else Inl OverflowError)"
proof (cases "0 \<le> t + n \<and> t + n \<le> datetime_max")
  case True
  with assms have "- datetime_max \<le> n" "n \<le> datetime_max"
    by (simp_all add: is_datetime_def)
  then have "timedelta_seconds n = Inr n" by (rule timedelta_seconds_small)
  with True show ?thesis by (simp add: plus_timedelta_def)
next
  case False
  then show ?thesis
    by (auto simp: plus_timedelta_def timedelta_seconds_def)
qed

lemma plus_timedelta_cases:
  "plus_timedelta t n = Inl OverflowError \<or> plus_timedelta t n = Inr (t + n)"
  by (simp add: plus_timedelta_def timedelta_seconds_def)

subsection \<open>The two halves of an override\<close>

lemma snd_emergency_override:
  "\<exists>cur. signal_states (create_signal_if_not_exists c sid now) sid = Some cur
     \<and> snd (emergency_override c sid duration reason now) =
         set_signal (create_signal_if_not_exists c sid now) sid
           \<lparr>signal_id = sid, current_state = ''green'', state_start_time = now,
            remaining_time =
              (case duration of None \<Rightarrow> emergency_override_duration c | Some d \<Rightarrow> d),
            is_emergency_override = True, override_reason = reason,
            normal_timing =
              (if \<not> is_emergency_override cur
               then Snapshot (current_state cur) (remaining_time cur) (state_start_time cur)
               else normal_timing cur)\<rparr>"
proof (cases "signal_states c sid")
  case None
  then show ?thesis
    by (simp add: emergency_override_def Let_def create_signal_lookup_same split: sum.split)
next
  case (Some s)
  then show ?thesis
    by (simp add: emergency_override_def Let_def create_signal_lookup_same split: sum.split)
qed

lemma fst_emergency_override:
  "fst (emergency_override c sid duration reason now) =
     (let d = (case duration of None \<Rightarrow> emergency_override_duration c | Some d \<Rightarrow> d)
      in case plus_timedelta now d of
           Inl e \<Rightarrow> Inl e
         | Inr end_time \<Rightarrow>
             Inr \<lparr>or_signal_id = sid, or_new_state = ''green'', or_duration = d,
                  or_reason = reason, override_start_time = now,
                  or_estimated_end_time = end_time\<rparr>)"
  by (cases "signal_states c sid")
     (simp_all add: emergency_override_def Let_def create_signal_lookup_same split: sum.split)

section \<open>The invariant of reachable controllers\<close>

lemma positive_default: "positive_timing SignalTiming_default"
  by (simp add: positive_timing_def SignalTiming_default_def)

lemma controller_ok_set_signal:
  "controller_ok c \<Longrightarrow> state_ok sid s \<Longrightarrow> controller_ok (set_signal c sid s)"
  by (simp add: controller_ok_def set_signal_def)

lemma controller_ok_lookup:
  "controller_ok c \<Longrightarrow> signal_states c sid = Some s \<Longrightarrow> state_ok sid s"
  by (simp add: controller_ok_def)

lemma controller_ok_new: "controller_ok (new_controller eod dgd drd)"
  by (simp add: controller_ok_def new_controller_def)

lemma controller_ok_create:
  assumes "controller_ok c"
  shows "controller_ok (create_signal_if_not_exists c sid now)"
proof (cases "signal_states c sid")
  case None
  have "default_timing c = SignalTiming_default"
    using assms by (simp add: controller_ok_def)
  then have "state_ok sid
     \<lparr>signal_id = sid, current_state = ''red'', state_start_time = now,
      remaining_time = default_red_duration c, is_emergency_override = False,
      override_reason = '''', normal_timing = Timing (default_timing c)\<rparr>"
    by (simp add: state_ok_def is_phase_def is_snapshot_def positive_default)
  with assms None show ?thesis
    by (simp add: create_signal_if_not_exists_def controller_ok_set_signal)
next
  case (Some s)
  with assms show ?thesis by (simp add: create_signal_if_not_exists_def)
qed

lemma controller_ok_override:
  assumes "controller_ok c"
  shows "controller_ok (snd (emergency_override c sid duration reason now))"
proof -
  let ?c1 = "create_signal_if_not_exists c sid now"
  have ok1: "controller_ok ?c1" using assms by (rule controller_ok_create)
  from snd_emergency_override [of c sid now duration reason]
  obtain cur where cur: "signal_states ?c1 sid = Some cur"
    and eq: "snd (emergency_override c sid duration reason now) =
         set_signal ?c1 sid
           \<lparr>signal_id = sid, current_state = ''green'', state_start_time = now,
            remaining_time =
              (case duration of None \<Rightarrow> emergency_override_duration c | Some d \<Rightarrow> d),
            is_emergency_override = True, override_reason = reason,
            normal_timing =
              (if \<not> is_emergency_override cur
               then Snapshot (current_state cur) (remaining_time cur) (state_start_time cur)
               else normal_timing cur)\<rparr>"
    by blast
  have "state_ok sid cur" using ok1 cur by (rule controller_ok_lookup)
  then have "state_ok sid
       \<lparr>signal_id = sid, current_state = ''green'', state_start_time = now,
        remaining_time = r, is_emergency_override = True, override_reason = reason,
        normal_timing =
          (if \<not> is_emergency_override cur
           then Snapshot (current_state cur) (remaining_time cur) (state_start_time cur)
           else normal_timing cur)\<rparr>" for r
    by (auto simp: state_ok_def is_phase_def truthy_def split: timing_dict.splits)
  with ok1 show ?thesis unfolding eq by (rule controller_ok_set_signal)
qed

lemma controller_ok_restore:
  assumes "controller_ok c"
  shows "controller_ok (snd (restore_normal_operation c sid now))"
proof (cases "signal_states c sid")
  case None
  with assms show ?thesis by (simp add: restore_normal_operation_def)
next
  case (Some cur)
  have "state_ok sid
     \<lparr>signal_id = sid, current_state = p, state_start_time = now, remaining_time = r,
      is_emergency_override = False, override_reason = '''', normal_timing = NoneT\<rparr>"
    if "p = ''yellow'' \<or> p = ''red''" for p r
    using that by (auto simp: state_ok_def is_phase_def is_snapshot_def)
  with assms Some show ?thesis
    by (simp add: restore_normal_operation_def Let_def controller_ok_set_signal)
qed

lemma validate_fields_None:
  "validate_fields cfg fs = None \<Longrightarrow> f \<in> set fs \<Longrightarrow> \<exists>n. cfg f = Some (PyInt n) \<and> 0 < n"
  by (induction fs) (auto split: option.splits py_value.splits if_splits)

lemma validate_fields_Some:
  "validate_fields cfg fs = Some e \<Longrightarrow>
     \<exists>f\<in>set fs. (cfg f = None \<and> e = Missing_required_field f)
                \<or> (cfg f = Some PyOther \<and> e = Invalid_value_for f)
                \<or> (\<exists>n\<le>0. cfg f = Some (PyInt n) \<and> e = Invalid_value_for f)"
  by (induction fs) (auto split: option.splits py_value.splits if_splits)

lemma validate_fields_invalid:
  assumes "f \<in> set fs"
    and "cfg f = None \<or> cfg f = Some PyOther \<or> (\<exists>n\<le>0. cfg f = Some (PyInt n))"
  shows "validate_fields cfg fs \<noteq> None"
proof
  assume "validate_fields cfg fs = None"
  from validate_fields_None [OF this assms(1)] assms(2) show False by auto
qed

lemma controller_ok_update:
  assumes "controller_ok c"
  shows "controller_ok (snd (update_timing c sid cfg now))"
proof -
  let ?c1 = "create_signal_if_not_exists c sid now"
  have ok1: "controller_ok ?c1" using assms by (rule controller_ok_create)
  show ?thesis
  proof (cases "validate_fields cfg required_fields")
    case (Some e)
    with ok1 show ?thesis by (simp add: update_timing_def Let_def)
  next
    case None
    from validate_fields_None [OF None, of "''red_duration''"]
    obtain r where r: "cfg ''red_duration'' = Some (PyInt r)" "0 < r"
      by (auto simp: required_fields_def)
    from validate_fields_None [OF None, of "''yellow_duration''"]
    obtain y where y: "cfg ''yellow_duration'' = Some (PyInt y)" "0 < y"
      by (auto simp: required_fields_def)
    from validate_fields_None [OF None, of "''green_duration''"]
    obtain g where g: "cfg ''green_duration'' = Some (PyInt g)" "0 < g"
      by (auto simp: required_fields_def)
    show ?thesis
    proof (cases "signal_states ?c1 sid")
      case None': None
      with ok1 None r y g show ?thesis by (simp add: update_timing_def Let_def)
    next
      case (Some cur)
      have cur: "state_ok sid cur" using ok1 Some by (rule controller_ok_lookup)
      have "state_ok sid (cur\<lparr>normal_timing := Timing
               \<lparr>red_duration = r, yellow_duration = y, green_duration = g,
                cycle_time = r + y + g\<rparr>\<rparr>)"
        using cur r y g
        by (auto simp: state_ok_def truthy_def is_snapshot_def positive_timing_def)
      with ok1 None Some r y g show ?thesis
        by (simp add: update_timing_def Let_def controller_ok_set_signal)
    qed
  qed
qed

lemma controller_ok_transition:
  assumes "controller_ok c"
  shows "controller_ok (transition_to_next_state c sid now)"
proof (cases "signal_states c sid")
  case None
  with assms show ?thesis by (simp add: transition_to_next_state_def)
next
  case (Some cur)
  have cur: "state_ok sid cur" using assms Some by (rule controller_ok_lookup)
  show ?thesis
  proof (cases "timing_of c cur")
    case (Inl e)
    with assms Some show ?thesis by (simp add: transition_to_next_state_def)
  next
    case (Inr timing)
    then have ns: "\<not> is_snapshot (normal_timing cur)"
      by (auto simp: timing_of_def is_snapshot_def split: timing_dict.splits)
    have "state_ok sid
       \<lparr>signal_id = sid, current_state = p, state_start_time = now, remaining_time = r,
        is_emergency_override = False, override_reason = '''',
        normal_timing = normal_timing cur\<rparr>"
      if "is_phase p" for p r
      using that cur ns by (auto simp: state_ok_def split: if_splits)
    with assms Some Inr show ?thesis
      by (auto simp: transition_to_next_state_def Let_def is_phase_def
            intro!: controller_ok_set_signal)
  qed
qed

lemma controller_ok_monitor:
  assumes "controller_ok c"
  shows "controller_ok (monitor_signal c sid current_time now)"
  using assms
  by (auto simp: monitor_signal_def Let_def controller_ok_restore controller_ok_transition
        split: option.splits)

subsection \<open>The corridor keeps the invariant\<close>

lemma snd_coordination_plan_Cons:
  "snd (coordination_plan c (sid # rest) i iv d st) =
     (case plus_timedelta st (int i * iv) of
        Inl e \<Rightarrow> create_signal_if_not_exists c sid st
      | Inr t \<Rightarrow> snd (coordination_plan (create_signal_if_not_exists c sid st) rest (Suc i)
                        iv d st))"
proof (cases "plus_timedelta st (int i * iv)")
  case (Inl e)
  then show ?thesis by simp
next
  case (Inr t)
  then show ?thesis
    by (cases "coordination_plan (create_signal_if_not_exists c sid st) rest (Suc i) iv d st")
       (simp add: Let_def split: sum.split)
qed

lemma controller_ok_coordination_plan:
  "controller_ok c \<Longrightarrow> controller_ok (snd (coordination_plan c route i iv d st))"
proof (induction route arbitrary: c i)
  case Nil
  then show ?case by simp
next
  case (Cons sid rest)
  let ?c1 = "create_signal_if_not_exists c sid st"
  have ok1: "controller_ok ?c1" using Cons.prems by (rule controller_ok_create)
  then have "controller_ok (snd (coordination_plan ?c1 rest (Suc i) iv d st))"
    by (rule Cons.IH)
  with ok1 show ?case
    unfolding snd_coordination_plan_Cons by (simp split: sum.split)
qed

lemma snd_corridor_call:
  "snd (corridor_call c setex_ok n now plan) =
     (if delay_from_start plan = 0
      then snd (emergency_override c (pe_signal_id plan) (Some (pe_green_duration plan))
                  (''Green corridor coordination - Signal 1 of '' @ str_nat n) now)
      else c)"
proof (cases "delay_from_start plan = 0")
  case True
  then show ?thesis
    by (cases "emergency_override c (pe_signal_id plan) (Some (pe_green_duration plan))
                  (''Green corridor coordination - Signal 1 of '' @ str_nat n) now")
       (simp add: corridor_call_def split: sum.split)
next
  case False
  then show ?thesis by (simp add: corridor_call_def split: sum.split)
qed

lemma controller_ok_corridor_call:
  "controller_ok c \<Longrightarrow> controller_ok (snd (corridor_call c setex_ok n now plan))"
  unfolding snd_corridor_call by (simp add: controller_ok_override)

lemma execute_plan_Cons:
  "execute_plan c setex_ok n now (plan # plans) =
     (case execute_plan (snd (corridor_call c setex_ok n now plan)) setex_ok n now plans of
        (ok, failed, c'') \<Rightarrow>
          (case fst (corridor_call c setex_ok n now plan) of
             Inr u \<Rightarrow> (pe_signal_id plan # ok, failed, c'')
           | Inl e \<Rightarrow> (ok, (pe_signal_id plan, e) # failed, c'')))"
  by (simp add: split_beta Let_def split: sum.split)

lemma controller_ok_execute_plan:
  "controller_ok c \<Longrightarrow> controller_ok (snd (snd (execute_plan c setex_ok n now plans)))"
proof (induction plans arbitrary: c)
  case Nil
  then show ?case by simp
next
  case (Cons plan plans)
  have "controller_ok (snd (corridor_call c setex_ok n now plan))"
    using Cons.prems by (rule controller_ok_corridor_call)
  then have "controller_ok
      (snd (snd (execute_plan (snd (corridor_call c setex_ok n now plan)) setex_ok n now plans)))"
    by (rule Cons.IH)
  then show ?case
    unfolding execute_plan_Cons by (simp add: split_beta split: sum.split)
qed

lemma snd_coordinate_green_corridor:
  "route \<noteq> [] \<Longrightarrow>
   snd (coordinate_green_corridor c setex_ok route duration now) =
     (case fst (coordination_plan c route 0 (max 10 (duration div int (length route)))
                  duration now) of
        Inl e \<Rightarrow>
          snd (coordination_plan c route 0 (max 10 (duration div int (length route)))
                 duration now)
      | Inr plan \<Rightarrow>
          snd (snd (execute_plan
            (snd (coordination_plan c route 0 (max 10 (duration div int (length route)))
                    duration now))
            setex_ok (length route) now plan)))"
  by (simp add: coordinate_green_corridor_def Let_def split_beta split: sum.split prod.split)

lemma controller_ok_coordinate:
  assumes "controller_ok c"
  shows "controller_ok (snd (coordinate_green_corridor c setex_ok route duration now))"
proof (cases "route = []")
  case True
  with assms show ?thesis by (simp add: coordinate_green_corridor_def)
next
  case False
  let ?iv = "max 10 (duration div int (length route))"
  have ok1: "controller_ok (snd (coordination_plan c route 0 ?iv duration now))"
    using assms by (rule controller_ok_coordination_plan)
  then have "controller_ok (snd (snd (execute_plan (snd (coordination_plan c route 0 ?iv
           duration now)) setex_ok (length route) now plans)))" for plans
    by (rule controller_ok_execute_plan)
  with ok1 show ?thesis
    unfolding snd_coordinate_green_corridor [OF False] by (simp split: sum.split)
qed

lemma reachable_controller_ok: "reachable c \<Longrightarrow> controller_ok c"
  by (induction rule: reachable.induct)
     (simp_all add: controller_ok_new controller_ok_create controller_ok_override
        controller_ok_restore controller_ok_update controller_ok_coordinate
        controller_ok_monitor)

lemma reachable_fold_create:
  "reachable c \<Longrightarrow>
     reachable (fold (\<lambda>sid c'. create_signal_if_not_exists c' sid now) sids c)"
  by (induction sids arbitrary: c) (simp_all add: reachable_create)

lemma reachable_init: "reachable (init eod dgd drd now)"
  unfolding init_def initialize_default_signals_def
  by (rule reachable_fold_create [OF reachable_new])

section \<open>Example controllers\<close>

lemma example_now_is_datetime: "is_datetime example_now"
  by (simp add: is_datetime_def example_now_def datetime_max_def)

lemma example_controller_clock_tower:
  "signal_states example_controller ''clock_tower'' =
     Some \<lparr>signal_id = ''clock_tower'', current_state = ''red'',
            state_start_time = example_now, remaining_time = 45,
            is_emergency_override = False, override_reason = '''',
            normal_timing = Timing SignalTiming_default\<rparr>"
  unfolding example_controller_def by (rule init_clock_tower)

lemma example_overridden_lookup:
  "signal_states example_overridden ''clock_tower'' =
     Some \<lparr>signal_id = ''clock_tower'', current_state = ''green'', state_start_time = 10,
            remaining_time = 60, is_emergency_override = True, override_reason = ''ambulance'',
            normal_timing = Snapshot ''red'' 45 0\<rparr>"
  using snd_emergency_override [of "init 60 30 45 0" "''clock_tower''" 10 "Some 60" "''ambulance''"]
  by (auto simp: example_overridden_def create_signal_lookup_same init_clock_tower
      signal_states_set_signal)

lemma example_overridden_reachable: "reachable example_overridden"
  unfolding example_overridden_def by (rule reachable_override [OF reachable_init])

lemma example_retimed_reachable: "reachable example_retimed"
  unfolding example_retimed_def by (rule reachable_update [OF example_overridden_reachable])

lemma example_retimed_lookup:
  "signal_states example_retimed ''clock_tower'' =
     Some \<lparr>signal_id = ''clock_tower'', current_state = ''green'', state_start_time = 10,
            remaining_time = 60, is_emergency_override = True, override_reason = ''ambulance'',
            normal_timing = Timing \<lparr>red_duration = 50, yellow_duration = 6,
                                    green_duration = 35, cycle_time = 91\<rparr>\<rparr>"
  by (simp add: example_retimed_def update_timing_def Let_def example_timing_config_def
      required_fields_def create_signal_lookup_same example_overridden_lookup
      signal_states_set_signal)

lemma example_retimed_default:
  "default_timing example_retimed = SignalTiming_default"
  using reachable_controller_ok [OF example_retimed_reachable] by (simp add: controller_ok_def)

section \<open>Emergency override\<close>

text \<open>
  Claim C1 says that every duration \<open>d > 0\<close> yields a success result. With
  \<open>d = 300000000000\<close> on the signal \<^verbatim>\<open>clock_tower\<close>, at a clock reading of the year
  2025, the estimated end time lies after the year 9999: the addition raises
  \<^verbatim>\<open>OverflowError\<close> and the result is a failure.
\<close>

theorem emergency_override_overflow_counterexample:
  "(0::int) < 300000000000
   \<and> is_datetime example_now
   \<and> fst (emergency_override example_controller ''clock_tower'' (Some 300000000000)
            ''ambulance'' example_now) = Inl OverflowError"
  by (simp add: fst_emergency_override plus_timedelta_in_range example_now_is_datetime)
     (simp add: example_now_def datetime_max_def is_datetime_def)

text \<open>
  Claim C1, amended. For every signal id, every duration \<open>d > 0\<close>, every reason and
  every clock reading \<open>now\<close>, \<^verbatim>\<open>emergency_override\<close> stores, under the signal's key,
  a record with phase green, the override flag set, the given reason, start time \<open>now\<close>
  and planned duration \<open>d\<close>; the remaining time that \<^verbatim>\<open>get_signal_status\<close> reports at
  any later instant is at most \<open>d\<close>. The record is written into the controller obtained by
  creating the signal first when it was unknown (red, default red duration), and when the
  signal was not overridden before, the stored snapshot holds its phase, its remaining
  time and its start time as they were before the override. The result is a success
  exactly when the end time \<open>now + d\<close> is a date of the library, that is at most
  \<open>datetime_max\<close>; otherwise the result is the failure \<^verbatim>\<open>OverflowError\<close>, returned
  after the record has been written.
\<close>

theorem emergency_override_positive:
  assumes "0 < d" and "is_datetime now"
  shows "\<exists>s'. snd (emergency_override c sid (Some d) reason now) =
                 set_signal (create_signal_if_not_exists c sid now) sid s'
           \<and> current_state s' = ''green''
           \<and> is_emergency_override s'
           \<and> override_reason s' = reason
           \<and> state_start_time s' = now
           \<and> remaining_time s' = d
           \<and> (\<forall>t\<ge>now. \<exists>st.
                  get_signal_status (snd (emergency_override c sid (Some d) reason now)) sid t
                    = Inr st
                  \<and> st_current_state st = ''green'' \<and> st_is_emergency_override st
                  \<and> st_remaining_time st \<le> d)
           \<and> (signal_states c sid = None \<longrightarrow>
                 normal_timing s' = Snapshot ''red'' (default_red_duration c) now)
           \<and> (\<forall>s. signal_states c sid = Some s \<and> \<not> is_emergency_override s \<longrightarrow>
                 normal_timing s' =
                   Snapshot (current_state s) (remaining_time s) (state_start_time s))
           \<and> fst (emergency_override c sid (Some d) reason now) =
               (if now + d \<le> datetime_max
                then Inr \<lparr>or_signal_id = sid, or_new_state = ''green'', or_duration = d,
                          or_reason = reason, override_start_time = now,
                          or_estimated_end_time = now + d\<rparr>
                else Inl OverflowError)"
proof -
  from snd_emergency_override [of c sid now "Some d" reason]
  obtain cur where cur: "signal_states (create_signal_if_not_exists c sid now) sid = Some cur"
    and eq: "snd (emergency_override c sid (Some d) reason now) =
         set_signal (create_signal_if_not_exists c sid now) sid
           \<lparr>signal_id = sid, current_state = ''green'', state_start_time = now,
            remaining_time = d, is_emergency_override = True, override_reason = reason,
            normal_timing =
              (if \<not> is_emergency_override cur
               then Snapshot (current_state cur) (remaining_time cur) (state_start_time cur)
               else normal_timing cur)\<rparr>"
    by auto
  have res: "fst (emergency_override c sid (Some d) reason now) =
               (if now + d \<le> datetime_max
                then Inr \<lparr>or_signal_id = sid, or_new_state = ''green'', or_duration = d,
                          or_reason = reason, override_start_time = now,
                          or_estimated_end_time = now + d\<rparr>
                else Inl OverflowError)"
    using assms
    by (simp add: fst_emergency_override plus_timedelta_in_range is_datetime_def)
  have fresh: "signal_states c sid = None \<Longrightarrow>
      \<not> is_emergency_override cur \<and> current_state cur = ''red''
      \<and> remaining_time cur = default_red_duration c \<and> state_start_time cur = now"
    using cur by (auto simp: create_signal_lookup_same)
  have old: "signal_states c sid = Some s \<Longrightarrow> cur = s" for s
    using cur by (simp add: create_signal_lookup_same)
  show ?thesis
    unfolding eq res using assms(1) fresh old
    by (intro exI conjI refl)
       (auto simp: get_signal_status_def signal_states_set_signal)
qed

theorem emergency_override_positive_witness:
  "\<exists>s'. emergency_override (init 60 30 45 0) ''clock_tower'' (Some 60) ''ambulance'' 10 =
           (Inr \<lparr>or_signal_id = ''clock_tower'', or_new_state = ''green'', or_duration = 60,
                 or_reason = ''ambulance'', override_start_time = 10,
                 or_estimated_end_time = 70\<rparr>,
            set_signal (init 60 30 45 0) ''clock_tower'' s')
        \<and> current_state s' = ''green'' \<and> remaining_time s' = 60
        \<and> normal_timing s' = Snapshot ''red'' 45 0"
proof -
  have d: "is_datetime 10" by (simp add: is_datetime_def datetime_max_def)
  have c: "create_signal_if_not_exists (init 60 30 45 0) ''clock_tower'' 10 = init 60 30 45 0"
    by (rule create_signal_existing [OF init_clock_tower])
  from emergency_override_positive
         [of 60 10 "init 60 30 45 0" "''clock_tower''" "''ambulance''", OF _ d]
  show ?thesis
    by (auto simp: c init_clock_tower datetime_max_def prod_eq_iff)
qed

text \<open>
  Claim C2 says that a duration \<open>d \<le> 0\<close> is rejected with a validation error and that
  no state changes. \<^verbatim>\<open>emergency_override\<close> has no check of the duration: with
  \<open>d = 0\<close> on the signal \<^verbatim>\<open>clock_tower\<close> of a fresh controller it returns the success
  result and replaces the stored red record by a green override of planned duration 0.
\<close>

theorem emergency_override_zero_duration:
  "fst (emergency_override (init 60 30 45 0) ''clock_tower'' (Some 0) ''ambulance'' 10)
     = Inr \<lparr>or_signal_id = ''clock_tower'', or_new_state = ''green'', or_duration = 0,
            or_reason = ''ambulance'', override_start_time = 10, or_estimated_end_time = 10\<rparr>
   \<and> signal_states (init 60 30 45 0) ''clock_tower'' =
       Some \<lparr>signal_id = ''clock_tower'', current_state = ''red'', state_start_time = 0,
              remaining_time = 45, is_emergency_override = False, override_reason = '''',
              normal_timing = Timing SignalTiming_default\<rparr>
   \<and> signal_states
        (snd (emergency_override (init 60 30 45 0) ''clock_tower'' (Some 0) ''ambulance'' 10))
        ''clock_tower'' =
       Some \<lparr>signal_id = ''clock_tower'', current_state = ''green'', state_start_time = 10,
              remaining_time = 0, is_emergency_override = True, override_reason = ''ambulance'',
              normal_timing = Snapshot ''red'' 45 0\<rparr>"
proof -
  have "plus_timedelta 10 0 = Inr 10"
    by (simp add: plus_timedelta_def timedelta_seconds_def datetime_max_def)
  moreover have "signal_states
        (snd (emergency_override (init 60 30 45 0) ''clock_tower'' (Some 0) ''ambulance'' 10))
        ''clock_tower'' =
       Some \<lparr>signal_id = ''clock_tower'', current_state = ''green'', state_start_time = 10,
              remaining_time = 0, is_emergency_override = True, override_reason = ''ambulance'',
              normal_timing = Snapshot ''red'' 45 0\<rparr>"
    using snd_emergency_override
            [of "init 60 30 45 0" "''clock_tower''" 10 "Some 0" "''ambulance''"]
    by (auto simp: create_signal_lookup_same init_clock_tower signal_states_set_signal)
  ultimately show ?thesis
    by (simp add: fst_emergency_override init_clock_tower)
qed

section \<open>Restoration\<close>

text \<open>
  Claim C3 says that a restoration gives the yellow phase the signal's configured yellow
  duration. The signal \<^verbatim>\<open>clock_tower\<close> of \<open>example_retimed\<close> is overridden and has
  the timing profile with yellow duration 6, installed by \<^verbatim>\<open>update_timing\<close> during
  the override; its restoration gives the yellow phase the planned duration 5, the
  yellow duration of the controller's default timing.
\<close>

theorem restore_yellow_duration_counterexample:
  "signal_states example_retimed ''clock_tower'' =
     Some \<lparr>signal_id = ''clock_tower'', current_state = ''green'', state_start_time = 10,
            remaining_time = 60, is_emergency_override = True, override_reason = ''ambulance'',
            normal_timing = Timing \<lparr>red_duration = 50, yellow_duration = 6,
                                    green_duration = 35, cycle_time = 91\<rparr>\<rparr>
   \<and> signal_states (snd (restore_normal_operation example_retimed ''clock_tower'' 30))
        ''clock_tower'' =
     Some \<lparr>signal_id = ''clock_tower'', current_state = ''yellow'', state_start_time = 30,
            remaining_time = 5, is_emergency_override = False, override_reason = '''',
            normal_timing = NoneT\<rparr>"
  by (simp add: example_retimed_lookup restore_normal_operation_def truthy_def Let_def
      signal_states_set_signal example_retimed_default SignalTiming_default_def)

text \<open>
  Claim C3, amended. For every signal of a reachable controller that exists and is in
  emergency override, \<^verbatim>\<open>restore_normal_operation\<close> succeeds and leaves the signal
  with phase yellow (never red, never the phase before the override), the override flag
  cleared, start time \<open>now\<close> and the planned duration 5, which is the yellow duration of
  the controller's default timing, whatever timing profile is stored for the signal.
\<close>

theorem restore_after_override:
  assumes "reachable c" and "signal_states c sid = Some s" and "is_emergency_override s"
  shows "restore_normal_operation c sid now =
           (Inr \<lparr>rr_signal_id = sid, rr_new_state = ''yellow'', restoration_time = now\<rparr>,
            set_signal c sid
              \<lparr>signal_id = sid, current_state = ''yellow'', state_start_time = now,
               remaining_time = 5, is_emergency_override = False, override_reason = '''',
               normal_timing = NoneT\<rparr>)
         \<and> yellow_duration (default_timing c) = 5"
proof -
  have ok: "controller_ok c" using assms(1) by (rule reachable_controller_ok)
  then have d: "default_timing c = SignalTiming_default" by (simp add: controller_ok_def)
  have "state_ok sid s" using ok assms(2) by (rule controller_ok_lookup)
  with assms(3) have "truthy (normal_timing s)" by (simp add: state_ok_def)
  with assms(2,3) d show ?thesis
    by (simp add: restore_normal_operation_def Let_def SignalTiming_default_def)
qed

theorem restore_after_override_witness:
  "restore_normal_operation example_retimed ''clock_tower'' 30 =
     (Inr \<lparr>rr_signal_id = ''clock_tower'', rr_new_state = ''yellow'', restoration_time = 30\<rparr>,
      set_signal example_retimed ''clock_tower''
        \<lparr>signal_id = ''clock_tower'', current_state = ''yellow'', state_start_time = 30,
         remaining_time = 5, is_emergency_override = False, override_reason = '''',
         normal_timing = NoneT\<rparr>)"
  using restore_after_override [OF example_retimed_reachable example_retimed_lookup, of 30]
  by simp

text \<open>
  Claim C4. For every signal id, \<^verbatim>\<open>restore_normal_operation\<close> on a signal that does
  not exist, or that exists and is not in emergency override, returns a failure result
  (``Signal not found'', respectively ``Signal is not in emergency override'') and
  returns the controller unchanged.
\<close>

theorem restore_not_overridden:
  assumes "signal_states c sid = None
           \<or> (\<exists>s. signal_states c sid = Some s \<and> \<not> is_emergency_override s)"
  shows "restore_normal_operation c sid now =
           (Inl (if signal_states c sid = None then Signal_not_found
                 else Signal_is_not_in_emergency_override), c)"
  using assms by (auto simp: restore_normal_operation_def)

theorem restore_not_overridden_witness:
  "restore_normal_operation (init 60 30 45 0) ''clock_tower'' 10 =
     (Inl Signal_is_not_in_emergency_override, init 60 30 45 0)
   \<and> restore_normal_operation (init 60 30 45 0) ''nowhere'' 10 =
       (Inl Signal_not_found, init 60 30 45 0)"
  using restore_not_overridden [of "init 60 30 45 0" "''clock_tower''" 10]
        restore_not_overridden [of "init 60 30 45 0" "''nowhere''" 10]
  by (simp add: init_clock_tower init_unknown default_signals_def)

section \<open>The tick\<close>

text \<open>
  Claim C7. For every signal with positive phase durations, the tick of the monitor loop
  performed twice with the same reading \<open>current_time\<close> changes the phase at most
  once: the second tick leaves the controller as the first one left it. The reading
  \<open>now\<close> that a tick writes as the new start time is taken after \<open>current_time\<close>, so
  it is not earlier.
\<close>

theorem monitor_signal_idempotent:
  assumes "signal_states c sid = Some s" and "positive_durations c s"
    and "current_time \<le> now"
  shows "monitor_signal (monitor_signal c sid current_time now) sid current_time now' =
           monitor_signal c sid current_time now"
proof (cases "current_time - state_start_time s \<ge> remaining_time s")
  case False
  with assms(1) show ?thesis by (simp add: monitor_signal_def Let_def)
next
  case due: True
  show ?thesis
  proof (cases "is_emergency_override s")
    case True
    with assms due show ?thesis
      by (simp add: monitor_signal_def Let_def restore_normal_operation_def
          signal_states_set_signal positive_durations_def positive_timing_def
          default_timing_set_signal set_signal_def)
  next
    case normal: False
    show ?thesis
    proof (cases "timing_of c s")
      case (Inl e)
      with assms(1) due normal show ?thesis
        by (simp add: monitor_signal_def Let_def transition_to_next_state_def)
    next
      case (Inr timing)
      with assms(2) have "positive_timing timing"
        by (auto simp: timing_of_def positive_durations_def split: timing_dict.splits)
      with assms(1,3) due normal Inr show ?thesis
        by (simp add: monitor_signal_def Let_def transition_to_next_state_def
            signal_states_set_signal positive_timing_def)
    qed
  qed
qed

theorem monitor_signal_idempotent_witness:
  "monitor_signal (monitor_signal (init 60 30 45 0) ''clock_tower'' 45 45) ''clock_tower'' 45 45
     = monitor_signal (init 60 30 45 0) ''clock_tower'' 45 45
   \<and> signal_states (monitor_signal (init 60 30 45 0) ''clock_tower'' 45 45) ''clock_tower'' =
       Some \<lparr>signal_id = ''clock_tower'', current_state = ''green'', state_start_time = 45,
              remaining_time = 30, is_emergency_override = False, override_reason = '''',
              normal_timing = Timing SignalTiming_default\<rparr>"
proof -
  have p: "positive_durations (init 60 30 45 0)
             \<lparr>signal_id = ''clock_tower'', current_state = ''red'', state_start_time = 0,
              remaining_time = 45, is_emergency_override = False, override_reason = '''',
              normal_timing = Timing SignalTiming_default\<rparr>"
    by (simp add: positive_durations_def init_fields positive_default)
  have "signal_states (monitor_signal (init 60 30 45 0) ''clock_tower'' 45 45) ''clock_tower'' =
       Some \<lparr>signal_id = ''clock_tower'', current_state = ''green'', state_start_time = 45,
              remaining_time = 30, is_emergency_override = False, override_reason = '''',
              normal_timing = Timing SignalTiming_default\<rparr>"
    by (simp add: monitor_signal_def Let_def init_clock_tower transition_to_next_state_def
        timing_of_def signal_states_set_signal)
       (simp add: SignalTiming_default_def)
  then show ?thesis
    using monitor_signal_idempotent [OF init_clock_tower p, of 45 45 45] by simp
qed

section \<open>Phases and modes\<close>

text \<open>
  Claim C8. In every controller reached from a fresh one by any sequence of creations,
  overrides, restorations, timing updates, corridor coordinations and ticks, the phase of
  every signal is red, yellow or green. The one boolean \<^verbatim>\<open>is_emergency_override\<close>
  decides the mode: a due tick restores the signal when the flag is set and makes the
  normal transition when it is not. In normal mode the transition succeeds, keeps the
  mode, and goes from red to green, from green to yellow and from yellow to red, each
  time with the duration that the signal's timing gives to the new phase.
\<close>

theorem reachable_phase_and_mode:
  assumes "reachable c" and "signal_states c sid = Some s"
  shows "(current_state s = ''red'' \<or> current_state s = ''yellow'' \<or> current_state s = ''green'')
       \<and> (\<forall>current_time now. remaining_time s \<le> current_time - state_start_time s \<longrightarrow>
             monitor_signal c sid current_time now =
               (if is_emergency_override s then snd (restore_normal_operation c sid now)
                else transition_to_next_state c sid now))
       \<and> (\<not> is_emergency_override s \<longrightarrow>
            (\<forall>now. \<exists>timing s'.
               timing_of c s = Inr timing
             \<and> signal_states (transition_to_next_state c sid now) sid = Some s'
             \<and> \<not> is_emergency_override s' \<and> state_start_time s' = now
             \<and> (current_state s = ''red'' \<longrightarrow>
                   current_state s' = ''green'' \<and> remaining_time s' = green_duration timing)
             \<and> (current_state s = ''green'' \<longrightarrow>
                   current_state s' = ''yellow'' \<and> remaining_time s' = yellow_duration timing)
             \<and> (current_state s = ''yellow'' \<longrightarrow>
                   current_state s' = ''red'' \<and> remaining_time s' = red_duration timing)))"
proof -
  have ok: "state_ok sid s"
    using reachable_controller_ok [OF assms(1)] assms(2) by (rule controller_ok_lookup)
  then have phase: "is_phase (current_state s)" by (simp add: state_ok_def)
  have mode: "monitor_signal c sid current_time now =
               (if is_emergency_override s then snd (restore_normal_operation c sid now)
                else transition_to_next_state c sid now)"
    if "remaining_time s \<le> current_time - state_start_time s" for current_time now
    using that assms(2) by (simp add: monitor_signal_def Let_def)
  have cycle: "\<exists>timing s'.
               timing_of c s = Inr timing
             \<and> signal_states (transition_to_next_state c sid now) sid = Some s'
             \<and> \<not> is_emergency_override s' \<and> state_start_time s' = now
             \<and> (current_state s = ''red'' \<longrightarrow>
                   current_state s' = ''green'' \<and> remaining_time s' = green_duration timing)
             \<and> (current_state s = ''green'' \<longrightarrow>
                   current_state s' = ''yellow'' \<and> remaining_time s' = yellow_duration timing)
             \<and> (current_state s = ''yellow'' \<longrightarrow>
                   current_state s' = ''red'' \<and> remaining_time s' = red_duration timing)"
    if n: "\<not> is_emergency_override s" for now
  proof -
    from ok n have "\<not> is_snapshot (normal_timing s)" by (simp add: state_ok_def)
    then obtain timing where t: "timing_of c s = Inr timing"
      by (auto simp: timing_of_def is_snapshot_def split: timing_dict.splits)
    with assms(2) show ?thesis
      by (simp add: transition_to_next_state_def Let_def signal_states_set_signal)
  qed
  from phase mode cycle show ?thesis by (simp add: is_phase_def)
qed

theorem reachable_phase_and_mode_witness:
  "monitor_signal (init 60 30 45 0) ''clock_tower'' 45 46 =
     transition_to_next_state (init 60 30 45 0) ''clock_tower'' 46
   \<and> (\<exists>s'. signal_states (transition_to_next_state (init 60 30 45 0) ''clock_tower'' 46)
              ''clock_tower'' = Some s'
          \<and> current_state s' = ''green'' \<and> remaining_time s' = 30
          \<and> state_start_time s' = 46 \<and> \<not> is_emergency_override s')"
proof -
  note m = reachable_phase_and_mode
         [OF reachable_init [of 60 30 45 0] init_clock_tower [of 60 30 45 0]]
  from m have "monitor_signal (init 60 30 45 0) ''clock_tower'' 45 46 =
     transition_to_next_state (init 60 30 45 0) ''clock_tower'' 46"
    by simp
  moreover from m have "\<exists>timing s'.
        timing_of (init 60 30 45 0)
             \<lparr>signal_id = ''clock_tower'', current_state = ''red'', state_start_time = 0,
              remaining_time = 45, is_emergency_override = False, override_reason = '''',
              normal_timing = Timing SignalTiming_default\<rparr> = Inr timing
      \<and> signal_states (transition_to_next_state (init 60 30 45 0) ''clock_tower'' 46)
              ''clock_tower'' = Some s'
      \<and> \<not> is_emergency_override s' \<and> state_start_time s' = 46
      \<and> current_state s' = ''green'' \<and> remaining_time s' = green_duration timing"
    by simp
  ultimately show ?thesis
    by (auto simp: timing_of_def SignalTiming_default_def)
qed

section \<open>Timing update\<close>

text \<open>
  Claim C9 says that a rejected timing configuration creates no signal record. The
  signal is created before the configuration is validated: with the empty configuration
  and the unknown id \<^verbatim>\<open>new_signal\<close>, \<^verbatim>\<open>update_timing\<close> reports the missing field
  and the controller holds a new red record for \<^verbatim>\<open>new_signal\<close>.
\<close>

theorem update_timing_invalid_counterexample:
  "fst (update_timing (init 60 30 45 0) ''new_signal'' Map.empty 7) =
     Inl (Missing_required_field ''red_duration'')
   \<and> signal_states (init 60 30 45 0) ''new_signal'' = None
   \<and> signal_states (snd (update_timing (init 60 30 45 0) ''new_signal'' Map.empty 7))
        ''new_signal'' =
       Some \<lparr>signal_id = ''new_signal'', current_state = ''red'', state_start_time = 7,
              remaining_time = 45, is_emergency_override = False, override_reason = '''',
              normal_timing = Timing SignalTiming_default\<rparr>"
proof -
  have u: "signal_states (init 60 30 45 0) ''new_signal'' = None"
    by (rule init_unknown) (simp add: default_signals_def)
  show ?thesis
    by (simp add: update_timing_def Let_def required_fields_def create_signal_lookup_same u
        init_fields)
qed

text \<open>
  Claim C9, amended. For every signal id and every timing configuration that misses one
  of \<^verbatim>\<open>red_duration\<close>, \<^verbatim>\<open>yellow_duration\<close>, \<^verbatim>\<open>green_duration\<close>, or whose value
  for one of them is no positive integer, \<^verbatim>\<open>update_timing\<close> returns a validation
  error that names such a field. No record that existed is modified and no other key
  changes; the only change of state is that an unknown signal id gets its record,
  created red with the default red duration and the default timing.
\<close>

theorem update_timing_invalid:
  assumes "\<exists>f\<in>set required_fields.
             timing_config f = None \<or> timing_config f = Some PyOther
             \<or> (\<exists>n\<le>0. timing_config f = Some (PyInt n))"
  shows "\<exists>e. update_timing c sid timing_config now =
               (Inl e, create_signal_if_not_exists c sid now)
           \<and> (\<exists>f\<in>set required_fields. e = Missing_required_field f \<or> e = Invalid_value_for f)
           \<and> (\<forall>k s. signal_states c k = Some s \<longrightarrow>
                 signal_states (create_signal_if_not_exists c sid now) k = Some s)
           \<and> (\<forall>k. k \<noteq> sid \<longrightarrow>
                 signal_states (create_signal_if_not_exists c sid now) k = signal_states c k)
           \<and> (signal_states c sid = None \<longrightarrow>
                 signal_states (create_signal_if_not_exists c sid now) sid =
                   Some \<lparr>signal_id = sid, current_state = ''red'', state_start_time = now,
                          remaining_time = default_red_duration c,
                          is_emergency_override = False, override_reason = '''',
                          normal_timing = Timing (default_timing c)\<rparr>)"
proof -
  from assms obtain e where e: "validate_fields timing_config required_fields = Some e"
    using validate_fields_invalid [of _ required_fields timing_config] by fastforce
  from validate_fields_Some [OF e]
  have f: "\<exists>f\<in>set required_fields. e = Missing_required_field f \<or> e = Invalid_value_for f"
    by blast
  have keep: "signal_states (create_signal_if_not_exists c sid now) k = Some s"
    if "signal_states c k = Some s" for k s
    using that
    by (cases "k = sid") (simp_all add: create_signal_lookup_same create_signal_lookup_other)
  from e f keep show ?thesis
    by (simp add: update_timing_def Let_def create_signal_lookup_same
        create_signal_lookup_other)
qed

theorem update_timing_invalid_witness:
  "update_timing (init 60 30 45 0) ''clock_tower''
      [''red_duration'' \<mapsto> PyInt 50, ''yellow_duration'' \<mapsto> PyInt 0] 7
    = (Inl (Invalid_value_for ''yellow_duration''), init 60 30 45 0)"
proof -
  have a: "\<exists>f\<in>set required_fields.
             [''red_duration'' \<mapsto> PyInt 50, ''yellow_duration'' \<mapsto> PyInt 0] f = None
           \<or> [''red_duration'' \<mapsto> PyInt 50, ''yellow_duration'' \<mapsto> PyInt 0] f = Some PyOther
           \<or> (\<exists>n\<le>0. [''red_duration'' \<mapsto> PyInt 50, ''yellow_duration'' \<mapsto> PyInt 0] f
                       = Some (PyInt n))"
    by (simp add: required_fields_def)
  have c: "create_signal_if_not_exists (init 60 30 45 0) ''clock_tower'' 7 = init 60 30 45 0"
    by (rule create_signal_existing [OF init_clock_tower])
  from update_timing_invalid [OF a, of "init 60 30 45 0" "''clock_tower''" 7]
  show ?thesis
    by (auto simp: c update_timing_def Let_def required_fields_def)
qed

section \<open>The timing profile across an override\<close>






section \<open>The corridor plan\<close>

lemma plan_entries_Nil: "plan_entries [] i iv d st = []"
  by (simp add: plan_entries_def)

lemma plan_entries_Cons:
  "plan_entries (sid # rest) i iv d st =
     (if 0 < min 60 (d - int i * iv)
      then [\<lparr>pe_signal_id = sid, green_start_time = st + int i * iv,
              pe_green_duration = min 60 (d - int i * iv),
              delay_from_start = int i * iv\<rparr>]
      else [])
     @ plan_entries rest (Suc i) iv d st"
  by (simp add: plan_entries_def)

lemma plan_entries_delay_lower:
  assumes "0 \<le> iv" and "e \<in> set (plan_entries route i iv d st)"
  shows "int i * iv \<le> delay_from_start e"
  using assms(2)
proof (induction route arbitrary: i)
  case Nil
  then show ?case by (simp add: plan_entries_Nil)
next
  case (Cons sid rest)
  from Cons.prems
  have "delay_from_start e = int i * iv \<or> e \<in> set (plan_entries rest (Suc i) iv d st)"
    by (auto simp: plan_entries_Cons split: if_splits)
  then show ?case
  proof
    assume "delay_from_start e = int i * iv"
    then show ?thesis by simp
  next
    assume "e \<in> set (plan_entries rest (Suc i) iv d st)"
    then have "int (Suc i) * iv \<le> delay_from_start e" by (rule Cons.IH)
    moreover have "int i * iv \<le> int (Suc i) * iv"
      using assms(1) by (simp add: distrib_right)
    ultimately show ?thesis by linarith
  qed
qed

lemma plan_entries_sorted:
  assumes "0 < iv"
  shows "sorted_wrt (<) (map delay_from_start (plan_entries route i iv d st))"
proof (induction route arbitrary: i)
  case Nil
  then show ?case by (simp add: plan_entries_Nil)
next
  case (Cons sid rest)
  have later: "int i * iv < delay_from_start e"
    if "e \<in> set (plan_entries rest (Suc i) iv d st)" for e
  proof -
    have "int (Suc i) * iv \<le> delay_from_start e"
      using assms that by (intro plan_entries_delay_lower) simp_all
    moreover have "int i * iv < int (Suc i) * iv"
      using assms by (simp add: distrib_right)
    ultimately show ?thesis by linarith
  qed
  show ?case
    using Cons.IH [of "Suc i"] later by (auto simp: plan_entries_Cons)
qed

lemma plan_entries_empty:
  assumes "0 \<le> iv" and "d \<le> 0"
  shows "plan_entries route i iv d st = []"
proof (induction route arbitrary: i)
  case Nil
  then show ?case by (simp add: plan_entries_Nil)
next
  case (Cons sid rest)
  have "0 \<le> int i * iv" using assms(1) by simp
  with assms(2) have "\<not> 0 < min 60 (d - int i * iv)" by simp
  with Cons.IH show ?case by (simp add: plan_entries_Cons)
qed

lemma plan_entries_hd:
  assumes "0 < d"
  shows "plan_entries (sid # rest) 0 iv d st =
           \<lparr>pe_signal_id = sid, green_start_time = st, pe_green_duration = min 60 d,
            delay_from_start = 0\<rparr> # plan_entries rest (Suc 0) iv d st"
  using assms by (simp add: plan_entries_Cons)

lemma plan_entries_duration:
  assumes "0 \<le> iv" and "e \<in> set (plan_entries route i iv d st)"
  shows "0 < pe_green_duration e \<and> pe_green_duration e \<le> d"
  using assms(2)
proof (induction route arbitrary: i)
  case Nil
  then show ?case by (simp add: plan_entries_Nil)
next
  case (Cons sid rest)
  have "0 \<le> int i * iv" using assms(1) by simp
  with Cons show ?case
    by (auto simp: plan_entries_Cons split: if_splits)
qed

lemma fst_coordination_plan:
  assumes "is_datetime st" and "0 \<le> iv"
    and "st + (int i + int (length route) - 1) * iv \<le> datetime_max"
  shows "fst (coordination_plan c route i iv d st) = Inr (plan_entries route i iv d st)"
  using assms(3)
proof (induction route arbitrary: c i)
  case Nil
  then show ?case by (simp add: plan_entries_Nil)
next
  case (Cons sid rest)
  let ?c1 = "create_signal_if_not_exists c sid st"
  have le: "int i * iv \<le> (int i + int (length rest)) * iv"
    using assms(2) by (intro mult_right_mono) simp_all
  from Cons.prems have top: "st + (int i + int (length rest)) * iv \<le> datetime_max"
    by simp
  have "0 \<le> int i * iv" using assms(2) by simp
  with assms(1) le top have p: "plus_timedelta st (int i * iv) = Inr (st + int i * iv)"
    by (simp add: plus_timedelta_in_range is_datetime_def)
  from top have "st + (int (Suc i) + int (length rest) - 1) * iv \<le> datetime_max"
    by simp
  then have ih: "fst (coordination_plan ?c1 rest (Suc i) iv d st) =
                   Inr (plan_entries rest (Suc i) iv d st)"
    by (rule Cons.IH)
  show ?case
    using p ih
    by (cases "coordination_plan ?c1 rest (Suc i) iv d st")
       (simp add: Let_def plan_entries_Cons)
qed

lemma fst_coordinate_green_corridor:
  assumes "route \<noteq> []"
    and "fst (coordination_plan c route 0 (max 10 (duration div int (length route)))
                duration now) = Inr plan"
    and "plus_timedelta now duration = Inr end_time"
  shows "fst (coordinate_green_corridor c setex_ok route duration now) =
     Inr \<lparr>success =
            0 < length (fst (execute_plan
                  (snd (coordination_plan c route 0
                     (max 10 (duration div int (length route))) duration now))
                  setex_ok (length route) now plan)),
          route_signals = route,
          plan_of = plan,
          successful_coordinates =
            fst (execute_plan
                  (snd (coordination_plan c route 0
                     (max 10 (duration div int (length route))) duration now))
                  setex_ok (length route) now plan),
          failed_coordinates =
            fst (snd (execute_plan
                  (snd (coordination_plan c route 0
                     (max 10 (duration div int (length route))) duration now))
                  setex_ok (length route) now plan)),
          start_time = now,
          estimated_end_time = end_time,
          total_duration = duration\<rparr>"
  using assms
  by (cases "coordination_plan c route 0 (max 10 (duration div int (length route)))
                duration now")
     (simp add: coordinate_green_corridor_def Let_def split_beta)

lemma corridor_in_range:
  assumes "route \<noteq> []" and "is_datetime now"
    and "now + (int (length route) - 1) * max 10 (duration div int (length route))
           \<le> datetime_max"
    and "0 \<le> now + duration" and "now + duration \<le> datetime_max"
  shows "\<exists>r. fst (coordinate_green_corridor c setex_ok route duration now) = Inr r
     \<and> plan_of r =
         plan_entries route 0 (max 10 (duration div int (length route))) duration now
     \<and> success r = (successful_coordinates r \<noteq> [])
     \<and> successful_coordinates r =
         fst (execute_plan
               (snd (coordination_plan c route 0
                  (max 10 (duration div int (length route))) duration now))
               setex_ok (length route) now (plan_of r))
     \<and> failed_coordinates r =
         fst (snd (execute_plan
               (snd (coordination_plan c route 0
                  (max 10 (duration div int (length route))) duration now))
               setex_ok (length route) now (plan_of r)))"
proof -
  let ?iv = "max 10 (duration div int (length route))"
  have "fst (coordination_plan c route 0 ?iv duration now) =
          Inr (plan_entries route 0 ?iv duration now)"
    using assms(2,3) by (intro fst_coordination_plan) simp_all
  moreover have "plus_timedelta now duration = Inr (now + duration)"
    using assms(2,4,5) by (simp add: plus_timedelta_in_range)
  ultimately show ?thesis
    using fst_coordinate_green_corridor [OF assms(1), of c duration now _ _ setex_ok]
    by simp
qed

lemma example_controller_reachable: "reachable example_controller"
  unfolding example_controller_def by (rule reachable_init)

text \<open>
  Claim C5 says that a plan is built for every total duration. With the route
  \<^verbatim>\<open>["a", "b"]\<close> and the total duration \<open>10\<^sup>1\<^sup>2\<close> seconds at a clock reading of the year
  2025, the start time of the second signal lies after the year 9999: the first loop
  raises \<^verbatim>\<open>OverflowError\<close> and the result is a failure with no plan.
\<close>

theorem corridor_overflow_counterexample:
  "[''a'', ''b''] \<noteq> []
   \<and> is_datetime example_now
   \<and> fst (coordinate_green_corridor example_controller redis_up [''a'', ''b'']
            1000000000000 example_now) = Inl OverflowError"
proof -
  have a: "plus_timedelta example_now 0 = Inr example_now"
    by (simp add: plus_timedelta_in_range example_now_is_datetime)
       (simp add: example_now_def datetime_max_def)
  have b: "plus_timedelta example_now 500000000000 = Inl OverflowError"
    by (simp add: plus_timedelta_in_range example_now_is_datetime)
       (simp add: example_now_def datetime_max_def)
  show ?thesis
    by (simp add: coordinate_green_corridor_def Let_def a b example_now_is_datetime)
qed

text \<open>
  Claim C5, amended. For every non-empty route of \<open>n\<close> signal ids and every total
  duration for which the end time \<open>now + duration\<close> and the start time
  \<open>now + (n - 1) * interval\<close> of the last signal are dates of the library,
  \<^verbatim>\<open>coordinate_green_corridor\<close> returns a result whose plan is built as follows: the
  interval is \<open>max 10 (duration div n)\<close>; the signal of index \<open>i\<close> has the delay
  \<open>i * interval\<close>, the start time \<open>now\<close> plus that delay and the green duration
  \<open>min 60 (duration - delay)\<close>; the signals whose green duration is not positive are
  dropped, the others keep the order of the route. Every entry has a positive green
  duration, the first entry has delay 0, the plan is non-empty exactly when the total
  duration is positive, and the delays increase along the plan. For the route
  \<^verbatim>\<open>["a", "b"]\<close> and the total duration 60 the plan is \<open>a\<close> with delay 0 and duration
  60, then \<open>b\<close> with delay 30 and duration 30.
\<close>

theorem coordination_plan_partition:
  assumes "route \<noteq> []" and "is_datetime now"
    and "now + (int (length route) - 1) * max 10 (duration div int (length route))
           \<le> datetime_max"
    and "0 \<le> now + duration" and "now + duration \<le> datetime_max"
  shows "\<exists>r signal_interval.
           fst (coordinate_green_corridor c setex_ok route duration now) = Inr r
         \<and> signal_interval = max 10 (duration div int (length route))
         \<and> plan_of r =
             map (\<lambda>(i, sid).
                    \<lparr>pe_signal_id = sid,
                     green_start_time = now + int i * signal_interval,
                     pe_green_duration = min 60 (duration - int i * signal_interval),
                     delay_from_start = int i * signal_interval\<rparr>)
               (filter (\<lambda>(i, sid). 0 < min 60 (duration - int i * signal_interval))
                  (enumerate 0 route))
         \<and> (\<forall>e\<in>set (plan_of r). 0 < pe_green_duration e)
         \<and> (plan_of r \<noteq> [] \<longrightarrow> delay_from_start (hd (plan_of r)) = 0)
         \<and> (plan_of r \<noteq> [] \<longleftrightarrow> 0 < duration)
         \<and> sorted (map delay_from_start (plan_of r))
         \<and> sorted_wrt (<) (map delay_from_start (plan_of r))
         \<and> (now + 60 \<le> datetime_max \<longrightarrow>
              (\<exists>r2. fst (coordinate_green_corridor c setex_ok [''a'', ''b''] 60 now) = Inr r2
                 \<and> map (\<lambda>e. (pe_signal_id e, delay_from_start e, pe_green_duration e))
                     (plan_of r2) = [(''a'', 0, 60), (''b'', 30, 30)]))"
proof -
  let ?iv = "max 10 (duration div int (length route))"
  let ?plan = "plan_entries route 0 ?iv duration now"
  from corridor_in_range [OF assms, of c setex_ok]
  obtain r where r: "fst (coordinate_green_corridor c setex_ok route duration now) = Inr r"
    and p: "plan_of r = ?plan" by blast
  have iv: "0 < ?iv" by simp
  obtain sid rest where route: "route = sid # rest" using assms(1) by (cases route) auto
  have shape: "?plan =
             map (\<lambda>(i, sid).
                    \<lparr>pe_signal_id = sid,
                     green_start_time = now + int i * ?iv,
                     pe_green_duration = min 60 (duration - int i * ?iv),
                     delay_from_start = int i * ?iv\<rparr>)
               (filter (\<lambda>(i, sid). 0 < min 60 (duration - int i * ?iv))
                  (enumerate 0 route))"
    unfolding plan_entries_def ..
  have pos: "\<forall>e\<in>set ?plan. 0 < pe_green_duration e"
    using plan_entries_duration [of ?iv _ route 0 duration now] by simp
  have nonempty: "?plan \<noteq> [] \<longleftrightarrow> 0 < duration"
  proof (cases "0 < duration")
    case True
    then show ?thesis unfolding route by (subst plan_entries_hd) simp_all
  next
    case False
    then have "?plan = []" by (intro plan_entries_empty) simp_all
    with False show ?thesis by simp
  qed
  have first: "?plan \<noteq> [] \<longrightarrow> delay_from_start (hd ?plan) = 0"
  proof
    assume "?plan \<noteq> []"
    with nonempty have "0 < duration" by simp
    then show "delay_from_start (hd ?plan) = 0"
      unfolding route by (subst plan_entries_hd) simp_all
  qed
  have strict: "sorted_wrt (<) (map delay_from_start ?plan)"
    using iv by (rule plan_entries_sorted)
  then have sorted: "sorted (map delay_from_start ?plan)"
    by (rule strict_sorted_imp_sorted)
  have example: "\<exists>r2. fst (coordinate_green_corridor c setex_ok [''a'', ''b''] 60 now) = Inr r2
                 \<and> map (\<lambda>e. (pe_signal_id e, delay_from_start e, pe_green_duration e))
                     (plan_of r2) = [(''a'', 0, 60), (''b'', 30, 30)]"
    if "now + 60 \<le> datetime_max"
  proof -
    have ne: "[''a'', ''b''] \<noteq> []" by simp
    from corridor_in_range [OF ne assms(2), of 60 c setex_ok] that assms(2)
    obtain r2 where "fst (coordinate_green_corridor c setex_ok [''a'', ''b''] 60 now) = Inr r2"
      and "plan_of r2 = plan_entries [''a'', ''b''] 0 30 60 now"
      by (auto simp: is_datetime_def)
    then show ?thesis by (simp add: plan_entries_Cons plan_entries_Nil)
  qed
  from r p shape pos nonempty first strict sorted example show ?thesis
    by (intro exI [of _ r] exI [of _ ?iv]) simp
qed

theorem coordination_plan_partition_witness:
  "\<exists>r. fst (coordinate_green_corridor example_controller redis_up
              [''s1'', ''s2'', ''s3''] 90 example_now) = Inr r
     \<and> map (\<lambda>e. (pe_signal_id e, delay_from_start e, pe_green_duration e)) (plan_of r)
         = [(''s1'', 0, 60), (''s2'', 30, 60), (''s3'', 60, 30)]"
proof -
  have ne: "[''s1'', ''s2'', ''s3''] \<noteq> []" by simp
  have a: "example_now + (int (length [''s1'', ''s2'', ''s3'']) - 1)
             * max 10 (90 div int (length [''s1'', ''s2'', ''s3''])) \<le> datetime_max"
    by (simp add: example_now_def datetime_max_def)
  have b: "0 \<le> example_now + 90" by (simp add: example_now_def)
  have c: "example_now + 90 \<le> datetime_max" by (simp add: example_now_def datetime_max_def)
  from coordination_plan_partition
         [OF ne example_now_is_datetime a b c, of example_controller redis_up]
  show ?thesis
    by (auto simp: enumerate_eq_zip upt_rec)
qed

section \<open>The execution of the plan\<close>

lemma fst_corridor_call:
  assumes "is_datetime now"
    and "delay_from_start e = 0 \<longrightarrow>
           0 \<le> now + pe_green_duration e \<and> now + pe_green_duration e \<le> datetime_max"
  shows "fst (corridor_call c setex_ok n now e) =
           (if delay_from_start e = 0 \<or> setex_ok (pe_signal_id e) (green_start_time e)
            then Inr () else Inl RedisError)"
proof (cases "delay_from_start e = 0")
  case True
  let ?ov = "emergency_override c (pe_signal_id e) (Some (pe_green_duration e))
               (''Green corridor coordination - Signal 1 of '' @ str_nat n) now"
  from True assms have "\<exists>r. fst ?ov = Inr r"
    by (simp add: fst_emergency_override plus_timedelta_in_range Let_def)
  with True show ?thesis
    by (cases ?ov) (auto simp: corridor_call_def)
next
  case False
  then show ?thesis
    by (simp add: corridor_call_def schedule_signal_override_def)
qed

lemma execute_plan_lists:
  assumes "is_datetime now"
    and "\<forall>e\<in>set plans. delay_from_start e = 0 \<longrightarrow>
           0 \<le> now + pe_green_duration e \<and> now + pe_green_duration e \<le> datetime_max"
  shows "fst (execute_plan c setex_ok n now plans) =
           map pe_signal_id
             (filter (\<lambda>e. delay_from_start e = 0
                          \<or> setex_ok (pe_signal_id e) (green_start_time e)) plans)
       \<and> fst (snd (execute_plan c setex_ok n now plans)) =
           map (\<lambda>e. (pe_signal_id e, RedisError))
             (filter (\<lambda>e. \<not> (delay_from_start e = 0
                             \<or> setex_ok (pe_signal_id e) (green_start_time e))) plans)"
  using assms(2)
proof (induction plans arbitrary: c)
  case Nil
  then show ?case by simp
next
  case (Cons plan plans)
  from Cons.prems have call:
    "fst (corridor_call c setex_ok n now plan) =
       (if delay_from_start plan = 0 \<or> setex_ok (pe_signal_id plan) (green_start_time plan)
        then Inr () else Inl RedisError)"
    by (intro fst_corridor_call assms(1)) simp
  from Cons.prems
  have ih: "fst (execute_plan (snd (corridor_call c setex_ok n now plan)) setex_ok n now plans)
              = map pe_signal_id
                  (filter (\<lambda>e. delay_from_start e = 0
                               \<or> setex_ok (pe_signal_id e) (green_start_time e)) plans)
          \<and> fst (snd (execute_plan (snd (corridor_call c setex_ok n now plan))
                         setex_ok n now plans))
              = map (\<lambda>e. (pe_signal_id e, RedisError))
                  (filter (\<lambda>e. \<not> (delay_from_start e = 0
                                  \<or> setex_ok (pe_signal_id e) (green_start_time e))) plans)"
    by (intro Cons.IH) simp
  show ?case
    unfolding execute_plan_Cons using call ih by (simp add: split_beta)
qed

lemma fst_coordinate_green_corridor_overflow:
  assumes "route \<noteq> []"
    and "fst (coordination_plan c route 0 (max 10 (duration div int (length route)))
                duration now) = Inr plan"
    and "plus_timedelta now duration = Inl e"
  shows "fst (coordinate_green_corridor c setex_ok route duration now) = Inl e"
  using assms
  by (cases "coordination_plan c route 0 (max 10 (duration div int (length route)))
                duration now")
     (simp add: coordinate_green_corridor_def Let_def split_beta)

text \<open>
  Claim C6 says that the result reports success as soon as one call succeeded. With
  the route \<^verbatim>\<open>["clock_tower"]\<close> and the total duration \<open>300000000000\<close> at a clock reading
  of the year 2025, the immediate override of \<^verbatim>\<open>clock_tower\<close> succeeds and the signal is
  left green and overridden, but the estimated end time of the corridor lies after the
  year 9999 and the result is the failure \<^verbatim>\<open>OverflowError\<close>.
\<close>

theorem corridor_success_counterexample:
  "fst (coordinate_green_corridor example_controller redis_up [''clock_tower'']
          300000000000 example_now) = Inl OverflowError
   \<and> fst (coordination_plan example_controller [''clock_tower''] 0 300000000000
            300000000000 example_now) =
       Inr [\<lparr>pe_signal_id = ''clock_tower'', green_start_time = example_now,
             pe_green_duration = 60, delay_from_start = 0\<rparr>]
   \<and> fst (corridor_call example_controller redis_up 1 example_now
            \<lparr>pe_signal_id = ''clock_tower'', green_start_time = example_now,
             pe_green_duration = 60, delay_from_start = 0\<rparr>) = Inr ()
   \<and> map_option current_state
        (signal_states
           (snd (coordinate_green_corridor example_controller redis_up [''clock_tower'']
                   300000000000 example_now)) ''clock_tower'') = Some ''green''
   \<and> map_option is_emergency_override
        (signal_states
           (snd (coordinate_green_corridor example_controller redis_up [''clock_tower'']
                   300000000000 example_now)) ''clock_tower'') = Some True"
proof -
  let ?entry = "\<lparr>pe_signal_id = ''clock_tower'', green_start_time = example_now,
                 pe_green_duration = 60, delay_from_start = 0\<rparr>"
  have p0: "plus_timedelta example_now 0 = Inr example_now"
    by (simp add: plus_timedelta_in_range example_now_is_datetime)
       (simp add: example_now_def datetime_max_def)
  have pbig: "plus_timedelta example_now 300000000000 = Inl OverflowError"
    by (simp add: plus_timedelta_in_range example_now_is_datetime)
       (simp add: example_now_def datetime_max_def)
  have keep: "create_signal_if_not_exists example_controller ''clock_tower'' example_now
                = example_controller"
    by (rule create_signal_existing [OF example_controller_clock_tower])
  have plan: "coordination_plan example_controller [''clock_tower''] 0 300000000000
                300000000000 example_now = (Inr [?entry], example_controller)"
    by (simp add: Let_def p0 keep)
  have call: "fst (corridor_call example_controller redis_up 1 example_now ?entry) = Inr ()"
    using fst_corridor_call [OF example_now_is_datetime, of ?entry example_controller redis_up 1]
    by (simp add: example_now_def datetime_max_def)
  have res: "fst (coordinate_green_corridor example_controller redis_up [''clock_tower'']
          300000000000 example_now) = Inl OverflowError"
    by (rule fst_coordinate_green_corridor_overflow [where plan = "[?entry]"])
       (simp_all add: Let_def p0 keep pbig)
  have after: "snd (coordinate_green_corridor example_controller redis_up [''clock_tower'']
                   300000000000 example_now) =
               snd (emergency_override example_controller ''clock_tower'' (Some 60)
                     (''Green corridor coordination - Signal 1 of '' @ str_nat 1) example_now)"
  proof -
    have ne: "[''clock_tower''] \<noteq> []" by simp
    have "snd (coordinate_green_corridor example_controller redis_up [''clock_tower'']
                   300000000000 example_now) =
          snd (snd (execute_plan example_controller redis_up 1 example_now [?entry]))"
      using snd_coordinate_green_corridor
              [OF ne, of example_controller redis_up 300000000000 example_now]
      by (simp add: plan del: coordination_plan.simps)
    also have "\<dots> = snd (corridor_call example_controller redis_up 1 example_now ?entry)"
      by (simp add: execute_plan_Cons del: execute_plan.simps(2) split: sum.split)
    also have "\<dots> = snd (emergency_override example_controller ''clock_tower'' (Some 60)
                     (''Green corridor coordination - Signal 1 of '' @ str_nat 1) example_now)"
      by (simp add: snd_corridor_call)
    finally show ?thesis .
  qed
  from snd_emergency_override [of example_controller "''clock_tower''" example_now "Some 60"
         "''Green corridor coordination - Signal 1 of '' @ str_nat 1"]
  have state: "map_option current_state
        (signal_states
           (snd (emergency_override example_controller ''clock_tower'' (Some 60)
                     (''Green corridor coordination - Signal 1 of '' @ str_nat 1) example_now))
           ''clock_tower'') = Some ''green''
      \<and> map_option is_emergency_override
        (signal_states
           (snd (emergency_override example_controller ''clock_tower'' (Some 60)
                     (''Green corridor coordination - Signal 1 of '' @ str_nat 1) example_now))
           ''clock_tower'') = Some True"
    by (auto simp: signal_states_set_signal)
  from res plan call state show ?thesis
    unfolding after by simp
qed

text \<open>
  Claim C6, amended. For every non-empty route and every total duration for which the
  end time \<open>now + duration\<close> and the start time of the last signal are dates of the
  library, \<^verbatim>\<open>coordinate_green_corridor\<close> returns a result that reports success if and
  only if \<^verbatim>\<open>successful_coordinates\<close> is non-empty. That list holds, in the order of the
  plan, the signals whose immediate or scheduled call succeeded, and
  \<^verbatim>\<open>failed_coordinates\<close> holds the others, each with the error of its call; so one
  successful call makes the result a success whatever the number of failed ones. The
  immediate override of the first entry always succeeds here, hence the result is a
  success exactly when the total duration is positive.
\<close>

theorem corridor_partial_success:
  assumes "route \<noteq> []" and "is_datetime now"
    and "now + (int (length route) - 1) * max 10 (duration div int (length route))
           \<le> datetime_max"
    and "0 \<le> now + duration" and "now + duration \<le> datetime_max"
  shows "\<exists>r. fst (coordinate_green_corridor c setex_ok route duration now) = Inr r
     \<and> (success r \<longleftrightarrow> successful_coordinates r \<noteq> [])
     \<and> successful_coordinates r =
         map pe_signal_id
           (filter (\<lambda>e. delay_from_start e = 0
                        \<or> setex_ok (pe_signal_id e) (green_start_time e)) (plan_of r))
     \<and> failed_coordinates r =
         map (\<lambda>e. (pe_signal_id e, RedisError))
           (filter (\<lambda>e. \<not> (delay_from_start e = 0
                           \<or> setex_ok (pe_signal_id e) (green_start_time e))) (plan_of r))
     \<and> (\<forall>e\<in>set (plan_of r). \<forall>c'.
           fst (corridor_call c' setex_ok (length route) now e) =
             (if delay_from_start e = 0 \<or> setex_ok (pe_signal_id e) (green_start_time e)
              then Inr () else Inl RedisError))
     \<and> (success r \<longleftrightarrow>
           (\<exists>e\<in>set (plan_of r). \<forall>c'.
              fst (corridor_call c' setex_ok (length route) now e) = Inr ()))
     \<and> (success r \<longleftrightarrow> 0 < duration)"
proof -
  let ?iv = "max 10 (duration div int (length route))"
  let ?plan = "plan_entries route 0 ?iv duration now"
  let ?c1 = "snd (coordination_plan c route 0 ?iv duration now)"
  let ?ok = "\<lambda>e. delay_from_start e = 0 \<or> setex_ok (pe_signal_id e) (green_start_time e)"
  from corridor_in_range [OF assms, of c setex_ok]
  obtain r where r: "fst (coordinate_green_corridor c setex_ok route duration now) = Inr r"
    and p: "plan_of r = ?plan"
    and s: "success r = (successful_coordinates r \<noteq> [])"
    and ok: "successful_coordinates r =
               fst (execute_plan ?c1 setex_ok (length route) now (plan_of r))"
    and failed: "failed_coordinates r =
               fst (snd (execute_plan ?c1 setex_ok (length route) now (plan_of r)))"
    by blast
  have range: "\<forall>e\<in>set ?plan. delay_from_start e = 0 \<longrightarrow>
           0 \<le> now + pe_green_duration e \<and> now + pe_green_duration e \<le> datetime_max"
  proof (intro ballI impI)
    fix e assume "e \<in> set ?plan"
    then have "0 < pe_green_duration e \<and> pe_green_duration e \<le> duration"
      by (intro plan_entries_duration [of ?iv]) simp_all
    with assms(2,5) show "0 \<le> now + pe_green_duration e
                        \<and> now + pe_green_duration e \<le> datetime_max"
      by (simp add: is_datetime_def)
  qed
  note lists = execute_plan_lists [OF assms(2) range, of ?c1 setex_ok "length route"]
  have ok': "successful_coordinates r = map pe_signal_id (filter ?ok (plan_of r))"
    using lists ok p by simp
  have failed': "failed_coordinates r =
                   map (\<lambda>e. (pe_signal_id e, RedisError))
                     (filter (\<lambda>e. \<not> ?ok e) (plan_of r))"
    using lists failed p by simp
  have calls: "\<forall>e\<in>set (plan_of r). \<forall>c'.
           fst (corridor_call c' setex_ok (length route) now e) =
             (if ?ok e then Inr () else Inl RedisError)"
    unfolding p using range by (intro ballI allI fst_corridor_call assms(2)) simp
  have some: "success r \<longleftrightarrow> (\<exists>e\<in>set (plan_of r). ?ok e)"
    unfolding s ok' by (auto simp: filter_empty_conv)
  have some': "success r \<longleftrightarrow>
           (\<exists>e\<in>set (plan_of r). \<forall>c'.
              fst (corridor_call c' setex_ok (length route) now e) = Inr ())"
    unfolding some using calls by auto
  obtain sid rest where route: "route = sid # rest" using assms(1) by (cases route) auto
  have pos: "success r \<longleftrightarrow> 0 < duration"
  proof (cases "0 < duration")
    case True
    then have "?plan = \<lparr>pe_signal_id = sid, green_start_time = now,
                        pe_green_duration = min 60 duration, delay_from_start = 0\<rparr>
                 # plan_entries rest (Suc 0) ?iv duration now"
      unfolding route by (rule plan_entries_hd)
    with True show ?thesis unfolding some p by simp
  next
    case False
    then have "?plan = []" by (intro plan_entries_empty) simp_all
    with False show ?thesis unfolding some p by simp
  qed
  from r s ok' failed' calls some' pos show ?thesis by blast
qed

theorem corridor_partial_success_witness:
  "\<exists>r. fst (coordinate_green_corridor example_controller (redis_down_for ''s2'')
              [''s1'', ''s2'', ''s3''] 90 example_now) = Inr r
     \<and> success r
     \<and> successful_coordinates r = [''s1'', ''s3'']
     \<and> failed_coordinates r = [(''s2'', RedisError)]"
proof -
  have ne: "[''s1'', ''s2'', ''s3''] \<noteq> []" by simp
  have a: "example_now + (int (length [''s1'', ''s2'', ''s3'']) - 1)
             * max 10 (90 div int (length [''s1'', ''s2'', ''s3''])) \<le> datetime_max"
    by (simp add: example_now_def datetime_max_def)
  have b: "0 \<le> example_now + 90" by (simp add: example_now_def)
  have c: "example_now + 90 \<le> datetime_max" by (simp add: example_now_def datetime_max_def)
  from corridor_in_range [OF ne example_now_is_datetime a b c,
         of example_controller "redis_down_for ''s2''"]
  obtain r0 where r0:
      "fst (coordinate_green_corridor example_controller (redis_down_for ''s2'')
              [''s1'', ''s2'', ''s3''] 90 example_now) = Inr r0"
      "plan_of r0 = plan_entries [''s1'', ''s2'', ''s3''] 0 30 90 example_now"
    by auto
  from corridor_partial_success
         [OF ne example_now_is_datetime a b c, of example_controller "redis_down_for ''s2''"]
  show ?thesis
    using r0 by (auto simp: plan_entries_Cons plan_entries_Nil redis_down_for_def)
qed

end
